theory Spec2Isabelle
  imports Main
begin

section \<open>The workspace and the external tools\<close>

text \<open>
  The scripts work on one workspace directory and on the external programs they start
  with \<^verbatim>\<open>subprocess.run\<close>. Both are explicit here.

  The workspace is an association list from paths relative to the workspace root to
  what is there: a text file with its content, a file whose bytes are not text, a file
  that may not be opened, or a directory. A path that is a proper ancestor of a listed
  path is a directory too. The first entry of a path counts.
\<close>

datatype node =
    Text string
  | Binary
  | Locked
  | Dir

type_synonym fs = "(string \<times> node) list"

text \<open>What opening, reading or writing a path, or importing a module, may raise.\<close>

datatype exn =
    NoSuchFile
  | IsADirectoryError
  | PermissionError
  | UnicodeDecodeError
  | ModuleNotFoundError

text \<open>
  What an external program does is not part of the repository: it is the parameter
  \<open>sh\<close> of type \<open>shell\<close>, which maps the argument vector and the files to what
  \<^verbatim>\<open>subprocess.run\<close> does and to the files the program leaves behind.
  \<open>Completed rc out err\<close> is a \<^verbatim>\<open>CompletedProcess\<close>; \<open>FileNotFoundError\<close> is raised when
  the program is not installed; \<open>Raised s\<close> is any other exception, whose \<^verbatim>\<open>str\<close> is
  \<open>s\<close> (\<^verbatim>\<open>TimeoutExpired\<close> among them).
\<close>

datatype proc =
    Completed int string string
  | FileNotFoundError
  | Raised string

type_synonym shell = "string list \<Rightarrow> fs \<Rightarrow> proc \<times> fs"

text \<open>
  \<open>calls\<close> records the argument vector of every \<^verbatim>\<open>subprocess.run\<close>, oldest first.
  \<open>writable\<close> says whether the scripts may create and overwrite files in the workspace.
\<close>

record world =
  files :: fs
  calls :: "string list list"
  writable :: bool

definition subprocess_run :: "shell \<Rightarrow> string list \<Rightarrow> world \<Rightarrow> proc \<times> world" where
  "subprocess_run sh cmd w =
     (case sh cmd (files w) of
        (r, fs') \<Rightarrow> (r, w\<lparr>files := fs', calls := calls w @ [cmd]\<rparr>))"

text \<open>With \<^verbatim>\<open>check=True\<close> a non-zero return code raises \<^verbatim>\<open>CalledProcessError\<close>.\<close>

definition subprocess_run_check :: "shell \<Rightarrow> string list \<Rightarrow> world \<Rightarrow> proc \<times> world" where
  "subprocess_run_check sh cmd w =
     (case subprocess_run sh cmd w of
        (Completed rc out err, w') \<Rightarrow>
          (if rc \<noteq> 0 then (Raised ''CalledProcessError'', w')
           else (Completed rc out err, w'))
      | (r, w') \<Rightarrow> (r, w'))"

subsection \<open>Values of the JSON and YAML libraries\<close>

text \<open>
  \<^verbatim>\<open>json.loads\<close> is Python's library, not the repository's: it is the parameter
  \<open>json_loads\<close>, with \<open>None\<close> for a \<^verbatim>\<open>JSONDecodeError\<close>. A dictionary is the list of
  its items, one per key; \<open>dict_get\<close> is \<^verbatim>\<open>d.get(key, default)\<close>. A float is kept as
  a mantissa and an exponent; the scripts never compute with one.
\<close>

datatype json =
    JNull
  | JBool bool
  | JInt int
  | JFloat int int
  | JStr string
  | JList "json list"
  | JObj "(string \<times> json) list"

definition dict_get :: "(string \<times> json) list \<Rightarrow> string \<Rightarrow> json \<Rightarrow> json" where
  "dict_get d k dflt = (case map_of d k of None \<Rightarrow> dflt | Some v \<Rightarrow> v)"

text \<open>
  What \<^verbatim>\<open>yaml.safe_load\<close> can return: the JSON kinds with any scalar as a dictionary
  key, and byte strings, dates and sets. A float is finite (mantissa and exponent),
  infinite or not a number.
\<close>

datatype pyfloat =
    Finite int int
  | Infinite bool
  | NaN

datatype yaml =
    YNull
  | YBool bool
  | YInt int
  | YFloat pyfloat
  | YStr string
  | YBytes string
  | YDate string
  | YList "yaml list"
  | YSet "yaml list"
  | YDict "(yaml \<times> yaml) list"

text \<open>
  The PyYAML module, when it is installed: \<open>safe_load\<close> gives \<open>None\<close> for a
  \<^verbatim>\<open>YAMLError\<close>.
\<close>

record yaml_module =
  safe_load :: "string \<Rightarrow> yaml option"
  dump :: "yaml \<Rightarrow> string"

text \<open>
  \<open>str_lower\<close> is Python's \<^verbatim>\<open>str.lower\<close>, which follows the Unicode tables; \<open>yaml\<close> is
  \<open>None\<close> when \<^verbatim>\<open>import yaml\<close> fails.
\<close>

record tools =
  sh :: shell
  json_loads :: "string \<Rightarrow> json option"
  str_lower :: "string \<Rightarrow> string"
  yaml :: "yaml_module option"

subsection \<open>Paths\<close>

text \<open>The proper ancestors of a path: what stands before each of its slashes.\<close>

fun ancestors :: "string \<Rightarrow> string \<Rightarrow> string list" where
  "ancestors pre [] = []"
| "ancestors pre (c # cs) =
     (if c = CHR ''/'' \<and> pre \<noteq> [] then [pre] else []) @ ancestors (pre @ [c]) cs"

definition entries :: "fs \<Rightarrow> string list" where
  "entries fs = remdups (concat (map (\<lambda>e. ancestors [] (fst e) @ [fst e]) fs))"

definition node_at :: "fs \<Rightarrow> string \<Rightarrow> node option" where
  "node_at fs p =
     (case map_of fs p of
        Some n \<Rightarrow> Some n
      | None \<Rightarrow> (if p \<in> set (entries fs) then Some Dir else None))"

text \<open>\<^verbatim>\<open>Path.exists()\<close>: true for a file of any kind and for a directory.\<close>

definition exists_path :: "world \<Rightarrow> string \<Rightarrow> bool" where
  "exists_path w p = (node_at (files w) p \<noteq> None)"

text \<open>\<^verbatim>\<open>Path.read_text()\<close> and \<^verbatim>\<open>open(path)\<close> followed by reading it as text.\<close>

definition read_text :: "world \<Rightarrow> string \<Rightarrow> exn + string" where
  "read_text w p =
     (case node_at (files w) p of
        None \<Rightarrow> Inl NoSuchFile
      | Some Dir \<Rightarrow> Inl IsADirectoryError
      | Some Locked \<Rightarrow> Inl PermissionError
      | Some Binary \<Rightarrow> Inl UnicodeDecodeError
      | Some (Text s) \<Rightarrow> Inr s)"

text \<open>
  \<^verbatim>\<open>Path.write_text(s)\<close> and \<^verbatim>\<open>open(path, "w")\<close> followed by writing \<open>s\<close>, for a path
  whose parent directory exists.
\<close>

definition write_text :: "world \<Rightarrow> string \<Rightarrow> string \<Rightarrow> exn + world" where
  "write_text w p s =
     (if \<not> writable w then Inl PermissionError
      else
        (case node_at (files w) p of
           Some Dir \<Rightarrow> Inl IsADirectoryError
         | Some Locked \<Rightarrow> Inl PermissionError
         | _ \<Rightarrow> Inr (w\<lparr>files := (p, Text s) # filter (\<lambda>e. fst e \<noteq> p) (files w)\<rparr>)))"

text \<open>
  \<^verbatim>\<open>str(workspace / name)\<close> for a workspace path that is already in pathlib's normal
  form.
\<close>

definition joinpath :: "string \<Rightarrow> string \<Rightarrow> string" where
  "joinpath ws name =
     (if ws = ''.'' then name
      else if ws = ''/'' then ''/'' @ name
      else ws @ ''/'' @ name)"

definition startswith :: "string \<Rightarrow> string \<Rightarrow> bool" where
  "startswith s p = (take (length p) s = p)"

definition endswith :: "string \<Rightarrow> string \<Rightarrow> bool" where
  "endswith s p = (length p \<le> length s \<and> drop (length s - length p) s = p)"

fun basename :: "string \<Rightarrow> string" where
  "basename [] = []"
| "basename (c # cs) = (if CHR ''/'' \<in> set cs then basename cs
                        else if c = CHR ''/'' then cs else c # cs)"

text \<open>
  \<^verbatim>\<open>workspace.glob("requirements*.txt")\<close>: the files and directories of the root itself
  with such a name.
\<close>

definition glob_requirements :: "world \<Rightarrow> string list" where
  "glob_requirements w =
     filter (\<lambda>p. CHR ''/'' \<notin> set p \<and> startswith p ''requirements'' \<and> endswith p ''.txt'')
       (entries (files w))"

text \<open>
  \<^verbatim>\<open>workspace.rglob("*.py")\<close>: the files and directories at any depth whose name ends
  in \<^verbatim>\<open>.py\<close>.
\<close>

definition rglob_py :: "world \<Rightarrow> string list" where
  "rglob_py w = filter (\<lambda>p. endswith (basename p) ''.py'') (entries (files w))"

subsection \<open>Strings\<close>

text \<open>
  A Python string is its UTF-8 text. Searching and comparing agree on both; \<^verbatim>\<open>len\<close>
  counts code points, that is the bytes that do not continue a character.
\<close>

definition continuation :: "char \<Rightarrow> bool" where
  "continuation c = (128 \<le> (of_char c :: nat) \<and> (of_char c :: nat) < 192)"

definition py_len :: "string \<Rightarrow> nat" where
  "py_len s = length (filter (\<lambda>c. \<not> continuation c) s)"

text \<open>Python's \<^verbatim>\<open>sub in s\<close>.\<close>

fun str_in :: "string \<Rightarrow> string \<Rightarrow> bool" where
  "str_in sub [] = (sub = [])"
| "str_in sub (c # cs) = (startswith (c # cs) sub \<or> str_in sub cs)"



text \<open>
  \<^verbatim>\<open>str.isspace\<close> and \<^verbatim>\<open>str.strip()\<close> on ASCII text; the scripts strip one ASCII
  literal only.
\<close>

definition isspace :: "char \<Rightarrow> bool" where
  "isspace c = (c \<in> set [CHR 0x09, CHR 0x0A, CHR 0x0B, CHR 0x0C, CHR 0x0D,
                         CHR 0x1C, CHR 0x1D, CHR 0x1E, CHR 0x1F, CHR '' ''])"

definition strip :: "string \<Rightarrow> string" where
  "strip s = rev (dropWhile isspace (rev (dropWhile isspace s)))"

text \<open>What \<^verbatim>\<open>str.lower\<close> does to ASCII text; the concrete tools below use it.\<close>

definition ascii_lower_char :: "char \<Rightarrow> char" where
  "ascii_lower_char c =
     (case map_of (zip ''ABCDEFGHIJKLMNOPQRSTUVWXYZ'' ''abcdefghijklmnopqrstuvwxyz'') c of
        Some l \<Rightarrow> l
      | None \<Rightarrow> c)"

definition ascii_lower :: "string \<Rightarrow> string" where
  "ascii_lower s = map ascii_lower_char s"

text \<open>\<^verbatim>\<open>str(n)\<close> for a length.\<close>

fun str_nat :: "nat \<Rightarrow> string" where
  "str_nat n =
     (if n < 10 then [''0123456789'' ! n]
      else str_nat (n div 10) @ [''0123456789'' ! (n mod 10)])"

declare str_nat.simps [simp del]

section \<open>fixers.py\<close>

subsection \<open>DockerFixer\<close>

definition nl :: string where
  "nl = [CHR 0x0A]"

text \<open>The triple-quoted literal of the source: it starts and ends with a newline.\<close>

definition default_ignores :: string where
  "default_ignores =
     nl @ concat (map (\<lambda>l. l @ nl)
       [''.git'', ''.gitignore'', ''.dockerignore'', ''.env'', ''node_modules'',
        ''__pycache__'', ''.pytest_cache'', ''.venv'', ''build'', ''dist'',
        ''*.egg-info'', ''.vscode'', ''.idea''])"

text \<open>
  The function has no \<^verbatim>\<open>try\<close>: what \<^verbatim>\<open>read_text\<close> or \<^verbatim>\<open>write_text\<close> raises leaves
  it (\<open>Inl\<close>). The content read is not used.
\<close>

definition optimize_dockerfile :: "world \<Rightarrow> exn + bool \<times> world" where
  "optimize_dockerfile w =
     (if \<not> exists_path w ''Dockerfile'' then Inr (False, w)
      else
        (case read_text w ''Dockerfile'' of
           Inl e \<Rightarrow> Inl e
         | Inr content \<Rightarrow>
             (if \<not> exists_path w ''.dockerignore'' then
                (case write_text w ''.dockerignore'' (strip default_ignores) of
                   Inl e \<Rightarrow> Inl e
                 | Inr w' \<Rightarrow> Inr (True, w'))
              else Inr (False, w))))"

subsection \<open>SecurityFixer\<close>


subsection \<open>ConfigFixer\<close>








section \<open>detectors.py\<close>

record DetectionResult =
  category :: string
  found :: bool
  count :: int
  details :: "(string \<times> bool) list"
  severity :: string



section \<open>agent.py\<close>

subsection \<open>Issue\<close>

text \<open>
  A dataclass checks no field type, and the security detector stores whatever the
  scanner's JSON holds in \<open>file\<close>, \<open>line\<close> and \<open>message\<close>: these three fields are JSON
  values. \<open>fix_command\<close> defaults to \<^verbatim>\<open>None\<close>.
\<close>

record Issue =
  issue_type :: string
  severity :: string
  "file" :: json
  line :: json
  message :: json
  fixable :: bool
  fix_command :: "string option"

text \<open>
  The generated \<^verbatim>\<open>__init__\<close>: it stores its arguments. The class has no
  \<^verbatim>\<open>__post_init__\<close> and no other check.
\<close>

definition Issue_init ::
  "string \<Rightarrow> string \<Rightarrow> json \<Rightarrow> json \<Rightarrow> json \<Rightarrow> bool \<Rightarrow> string option \<Rightarrow> Issue" where
  "Issue_init t sev f l m fx cmd =
     \<lparr>issue_type = t, severity = sev, file = f, line = l, message = m,
      fixable = fx, fix_command = cmd\<rparr>"

subsection \<open>IssueDetector\<close>

text \<open>
  Each detector returns its list \<open>issues\<close> after the \<^verbatim>\<open>try\<close> statement, whichever way
  the statement was left: what was appended before an exception stays in the list. The
  warnings printed by the handlers are not modelled.
\<close>

definition formatting_issue :: "string \<Rightarrow> Issue" where
  "formatting_issue ws =
     Issue_init ''formatting'' ''low'' (JStr ''(multiple)'') (JInt 0)
       (JStr ''Code not formatted according to Black standards'') True
       (Some (''black '' @ ws))"

definition imports_issue :: "string \<Rightarrow> Issue" where
  "imports_issue ws =
     Issue_init ''imports'' ''low'' (JStr ''(multiple)'') (JInt 0)
       (JStr ''Imports not sorted correctly'') True
       (Some (''isort '' @ ws))"

definition black_check :: "string \<Rightarrow> string list" where
  "black_check ws = [''black'', ''--check'', ''--quiet'', ws]"

definition isort_check :: "string \<Rightarrow> string list" where
  "isort_check ws = [''isort'', ''--check-only'', ''--quiet'', ws]"

definition detect_formatting_issues :: "tools \<Rightarrow> string \<Rightarrow> world \<Rightarrow> Issue list \<times> world" where
  "detect_formatting_issues ts ws w =
     (case subprocess_run (sh ts) (black_check ws) w of
        (Completed rc out err, w1) \<Rightarrow>
          (let issues = (if rc \<noteq> 0 then [formatting_issue ws] else []) in
           case subprocess_run (sh ts) (isort_check ws) w1 of
             (Completed rc2 out2 err2, w2) \<Rightarrow>
               (if rc2 \<noteq> 0 then issues @ [imports_issue ws] else issues, w2)
           | (r2, w2) \<Rightarrow> (issues, w2))
      | (r, w1) \<Rightarrow> ([], w1))"

text \<open>
  The loop over the scanner's results. An item that is not a dictionary, or whose
  \<^verbatim>\<open>severity\<close> is not a string, raises \<^verbatim>\<open>AttributeError\<close>: the loop ends there and
  the issues appended so far remain.
\<close>

fun bandit_results :: "tools \<Rightarrow> json list \<Rightarrow> Issue list \<Rightarrow> Issue list" where
  "bandit_results ts [] issues = issues"
| "bandit_results ts (JObj d # rest) issues =
     (case dict_get d ''severity'' (JStr ''medium'') of
        JStr sev \<Rightarrow>
          bandit_results ts rest
            (issues @
             [Issue_init ''security'' (str_lower ts sev)
                (dict_get d ''filename'' (JStr ''unknown''))
                (dict_get d ''line_number'' (JInt 0))
                (dict_get d ''issue_text'' (JStr ''Security issue detected''))
                False None])
      | _ \<Rightarrow> issues)"
| "bandit_results ts (_ # rest) issues = issues"

definition bandit_cmd :: "string \<Rightarrow> string list" where
  "bandit_cmd ws = [''bandit'', ''-r'', ws, ''-f'', ''json'', ''-q'']"

text \<open>
  \<^verbatim>\<open>data.get("results", [])\<close> needs a dictionary (anything else has no \<^verbatim>\<open>get\<close>). Only a
  list can yield issues from the loop: a number, a boolean or \<^verbatim>\<open>None\<close> is not iterable,
  and iterating a string or a dictionary gives strings, which have no \<^verbatim>\<open>get\<close>.
\<close>

definition detect_security_issues :: "tools \<Rightarrow> string \<Rightarrow> world \<Rightarrow> Issue list \<times> world" where
  "detect_security_issues ts ws w =
     (case subprocess_run (sh ts) (bandit_cmd ws) w of
        (Completed rc out err, w1) \<Rightarrow>
          (if out \<noteq> [] then
             (case json_loads ts out of
                Some (JObj data) \<Rightarrow>
                  (case dict_get data ''results'' (JList []) of
                     JList rs \<Rightarrow> (bandit_results ts rs [], w1)
                   | _ \<Rightarrow> ([], w1))
              | _ \<Rightarrow> ([], w1))
           else ([], w1))
      | (r, w1) \<Rightarrow> ([], w1))"

definition linting_issue :: "string \<Rightarrow> Issue" where
  "linting_issue ws =
     Issue_init ''linting'' ''medium'' (JStr ''(multiple)'') (JInt 0)
       (JStr ''Linting issues detected'') True
       (Some (''pylint --rcfile=/dev/null '' @ ws @ '' --fix-imports=y''))"

definition pylint_cmd :: "string \<Rightarrow> world \<Rightarrow> string list" where
  "pylint_cmd ws w = ''pylint'' # map (joinpath ws) (take 10 (rglob_py w))"

definition detect_linting_issues :: "tools \<Rightarrow> string \<Rightarrow> world \<Rightarrow> Issue list \<times> world" where
  "detect_linting_issues ts ws w =
     (if rglob_py w = [] then ([], w)
      else
        (case subprocess_run (sh ts) (pylint_cmd ws w) w of
           (Completed rc out err, w1) \<Rightarrow>
             (let output = out @ err in
              if str_in ''error'' (str_lower ts output)
                 \<or> str_in ''warning'' (str_lower ts output)
              then ([linting_issue ws], w1) else ([], w1))
         | (r, w1) \<Rightarrow> ([], w1)))"

definition dependencies_issue :: "string \<Rightarrow> nat \<Rightarrow> Issue" where
  "dependencies_issue req_file n =
     Issue_init ''dependencies'' ''medium'' (JStr req_file) (JInt 0)
       (JStr (str_nat n @ '' outdated dependencies found'')) True
       (Some (''pip install --upgrade pip && pip install -r '' @ req_file @ '' --upgrade''))"

definition npm_issue :: Issue where
  "npm_issue =
     Issue_init ''npm-dependencies'' ''medium'' (JStr ''package.json'') (JInt 0)
       (JStr ''Outdated npm packages found'') True (Some ''npm update'')"

definition pip_outdated :: "string list" where
  "pip_outdated = [''pip'', ''list'', ''--outdated'', ''--format'', ''json'']"

definition npm_outdated :: "string list" where
  "npm_outdated = [''npm'', ''outdated'', ''--json'']"

text \<open>
  One round of the loop over the requirements files. \<^verbatim>\<open>if outdated:\<close> is false for an
  empty string, list or dictionary; \<^verbatim>\<open>len(outdated)\<close> raises \<^verbatim>\<open>TypeError\<close> for a
  number or a boolean, and the handler of the round passes: only a non-empty string, list
  or dictionary gives an issue.
\<close>

definition pip_round :: "tools \<Rightarrow> string \<Rightarrow> string \<Rightarrow> Issue list \<times> world \<Rightarrow> Issue list \<times> world" where
  "pip_round ts ws req acc =
     (case acc of (issues, w) \<Rightarrow>
        (case subprocess_run (sh ts) pip_outdated w of
           (Completed rc out err, w1) \<Rightarrow>
             (if out \<noteq> [] then
                (case json_loads ts out of
                   Some (JStr s) \<Rightarrow>
                     (if s \<noteq> [] then issues @ [dependencies_issue (joinpath ws req) (py_len s)]
                      else issues, w1)
                 | Some (JList xs) \<Rightarrow>
                     (if xs \<noteq> [] then issues @ [dependencies_issue (joinpath ws req) (length xs)]
                      else issues, w1)
                 | Some (JObj d) \<Rightarrow>
                     (if d \<noteq> [] then issues @ [dependencies_issue (joinpath ws req) (length d)]
                      else issues, w1)
                 | _ \<Rightarrow> (issues, w1))
              else (issues, w1))
         | (r, w1) \<Rightarrow> (issues, w1)))"

definition detect_dependency_issues :: "tools \<Rightarrow> string \<Rightarrow> world \<Rightarrow> Issue list \<times> world" where
  "detect_dependency_issues ts ws w =
     (case fold (pip_round ts ws) (glob_requirements w) ([], w) of
        (issues, w1) \<Rightarrow>
          (if exists_path w1 ''package.json'' then
             (case subprocess_run (sh ts) npm_outdated w1 of
                (Completed rc out err, w2) \<Rightarrow>
                  (if out \<noteq> [] \<and> out \<noteq> ''{}'' then (issues @ [npm_issue], w2)
                   else (issues, w2))
              | (r, w2) \<Rightarrow> (issues, w2))
           else (issues, w1)))"

definition run_all_detectors :: "tools \<Rightarrow> string \<Rightarrow> world \<Rightarrow> Issue list \<times> world" where
  "run_all_detectors ts ws w =
     (case detect_formatting_issues ts ws w of (fmt, w1) \<Rightarrow>
      case detect_linting_issues ts ws w1 of (lint, w2) \<Rightarrow>
      case detect_security_issues ts ws w2 of (sec, w3) \<Rightarrow>
      case detect_dependency_issues ts ws w3 of (dep, w4) \<Rightarrow>
        (fmt @ lint @ sec @ dep, w4))"

subsection \<open>IssueFixer\<close>

text \<open>The state of a fixer is its counter \<open>fixed_count\<close>, beside the world.\<close>

definition fix_formatting :: "tools \<Rightarrow> string \<Rightarrow> int \<times> world \<Rightarrow> bool \<times> int \<times> world" where
  "fix_formatting ts ws st =
     (case st of (fixed_count, w) \<Rightarrow>
        (case subprocess_run_check (sh ts) [''black'', ws] w of
           (Completed rc out err, w1) \<Rightarrow>
             (case subprocess_run_check (sh ts) [''isort'', ws] w1 of
                (Completed rc2 out2 err2, w2) \<Rightarrow> (True, fixed_count + 2, w2)
              | (r2, w2) \<Rightarrow> (False, fixed_count, w2))
         | (r, w1) \<Rightarrow> (False, fixed_count, w1)))"

text \<open>
  The loop over the requirements files inside the \<^verbatim>\<open>try\<close>: \<open>None\<close> once a command has
  raised, and the remaining files are skipped.
\<close>

definition pip_install_cmd :: "string \<Rightarrow> string \<Rightarrow> string list" where
  "pip_install_cmd ws req = [''pip'', ''install'', ''-r'', joinpath ws req, ''--upgrade'']"

fun pip_upgrade_all :: "tools \<Rightarrow> string \<Rightarrow> string list \<Rightarrow> world \<Rightarrow> bool \<times> world" where
  "pip_upgrade_all ts ws [] w = (True, w)"
| "pip_upgrade_all ts ws (req # rest) w =
     (case subprocess_run_check (sh ts) (pip_install_cmd ws req) w of
        (Completed rc out err, w1) \<Rightarrow> pip_upgrade_all ts ws rest w1
      | (r, w1) \<Rightarrow> (False, w1))"

definition fix_dependencies :: "tools \<Rightarrow> string \<Rightarrow> int \<times> world \<Rightarrow> bool \<times> int \<times> world" where
  "fix_dependencies ts ws st =
     (case st of (fixed_count, w) \<Rightarrow>
        (case pip_upgrade_all ts ws (glob_requirements w) w of
           (True, w1) \<Rightarrow>
             (if exists_path w1 ''package.json'' then
                (case subprocess_run_check (sh ts) [''npm'', ''update''] w1 of
                   (Completed rc out err, w2) \<Rightarrow> (True, fixed_count + 1, w2)
                 | (r, w2) \<Rightarrow> (False, fixed_count, w2))
              else (True, fixed_count + 1, w1))
         | (False, w1) \<Rightarrow> (False, fixed_count, w1)))"

definition apply_fixes :: "tools \<Rightarrow> string \<Rightarrow> Issue list \<Rightarrow> int \<times> world \<Rightarrow> int \<times> world" where
  "apply_fixes ts ws issues st =
     (let formatting_issues =
            filter (\<lambda>i. issue_type i \<in> set [''formatting'', ''imports'']) issues;
          dep_issues =
            filter (\<lambda>i. issue_type i \<in> set [''dependencies'', ''npm-dependencies'']) issues;
          st1 = (if formatting_issues \<noteq> [] then snd (fix_formatting ts ws st) else st);
          st2 = (if dep_issues \<noteq> [] then snd (fix_dependencies ts ws st1) else st1)
      in st2)"

subsection \<open>WorkflowOrchestrator\<close>

text \<open>
  \<open>run\<close> returns its boolean and the state it leaves: the fixer's counter and the world.
  The report and the summary are printed and not modelled.
\<close>

definition run :: "tools \<Rightarrow> string \<Rightarrow> int \<times> world \<Rightarrow> bool \<times> int \<times> world" where
  "run ts ws st =
     (case st of (fixed_count, w) \<Rightarrow>
        (case run_all_detectors ts ws w of
           (issues, w1) \<Rightarrow>
             (if issues = [] then (True, fixed_count, w1)
              else (True, apply_fixes ts ws issues (fixed_count, w1)))))"

section \<open>validators.py\<close>

text \<open>
  \<open>validate\<close> returns \<open>(passed, message)\<close>. The three validators of the chain catch every
  \<^verbatim>\<open>Exception\<close> themselves.
\<close>

definition py_compile_cmd :: "string \<Rightarrow> world \<Rightarrow> string list" where
  "py_compile_cmd ws w = [''python'', ''-m'', ''py_compile''] @ map (joinpath ws) (rglob_py w)"

definition PythonValidator_validate :: "tools \<Rightarrow> string \<Rightarrow> world \<Rightarrow> (bool \<times> string) \<times> world" where
  "PythonValidator_validate ts ws w =
     (case subprocess_run (sh ts) (py_compile_cmd ws w) w of
        (Completed rc out err, w1) \<Rightarrow>
          (if rc \<noteq> 0 then ((False, ''Python syntax errors detected''), w1)
           else
             (case subprocess_run (sh ts) [''pytest'', ws, ''-v''] w1 of
                (Completed rc2 out2 err2, w2) \<Rightarrow>
                  (if rc2 \<noteq> 0 then ((False, ''Tests failed:'' @ nl @ out2), w2)
                   else ((True, ''Python validation passed''), w2))
              | (FileNotFoundError, w2) \<Rightarrow> ((True, ''Python validators not available''), w2)
              | (Raised e, w2) \<Rightarrow> ((False, ''Validation error: '' @ e), w2)))
      | (FileNotFoundError, w1) \<Rightarrow> ((True, ''Python validators not available''), w1)
      | (Raised e, w1) \<Rightarrow> ((False, ''Validation error: '' @ e), w1))"

definition JavaScriptValidator_validate :: "tools \<Rightarrow> string \<Rightarrow> world \<Rightarrow> (bool \<times> string) \<times> world" where
  "JavaScriptValidator_validate ts ws w =
     (if \<not> exists_path w ''package.json'' then ((True, ''No JavaScript project found''), w)
      else
        (case subprocess_run (sh ts) [''npm'', ''test''] w of
           (Completed rc out err, w1) \<Rightarrow>
             (if rc \<noteq> 0 then ((False, ''Tests failed:'' @ nl @ out), w1)
              else ((True, ''JavaScript validation passed''), w1))
         | (FileNotFoundError, w1) \<Rightarrow> ((True, ''npm not available''), w1)
         | (Raised e, w1) \<Rightarrow> ((False, ''Validation error: '' @ e), w1)))"

text \<open>
  The second half of \<open>DockerValidator.validate\<close>, from \<^verbatim>\<open># Validate docker-compose\<close> on.
\<close>

definition validate_compose :: "tools \<Rightarrow> string \<Rightarrow> world \<Rightarrow> (bool \<times> string) \<times> world" where
  "validate_compose ts ws w =
     (if exists_path w ''docker-compose.yml'' then
        (case subprocess_run (sh ts)
                [''docker'', ''compose'', ''-f'', joinpath ws ''docker-compose.yml'', ''config''] w of
           (Completed rc out err, w1) \<Rightarrow>
             (if rc \<noteq> 0 then ((False, ''Docker Compose validation failed:'' @ nl @ err), w1)
              else ((True, ''Docker validation passed''), w1))
         | (FileNotFoundError, w1) \<Rightarrow> ((True, ''Docker not available for validation''), w1)
         | (Raised e, w1) \<Rightarrow> ((False, ''Validation error: '' @ e), w1))
      else ((True, ''Docker validation passed''), w))"

definition DockerValidator_validate :: "tools \<Rightarrow> string \<Rightarrow> world \<Rightarrow> (bool \<times> string) \<times> world" where
  "DockerValidator_validate ts ws w =
     (if exists_path w ''Dockerfile'' then
        (case subprocess_run (sh ts)
                [''docker'', ''build'', ''-f'', joinpath ws ''Dockerfile'', ''-t'',
                 ''validator:latest'', ws] w of
           (Completed rc out err, w1) \<Rightarrow>
             (if rc \<noteq> 0 then ((False, ''Docker build failed:'' @ nl @ err), w1)
              else validate_compose ts ws w1)
         | (FileNotFoundError, w1) \<Rightarrow> ((True, ''Docker not available for validation''), w1)
         | (Raised e, w1) \<Rightarrow> ((False, ''Validation error: '' @ e), w1))
      else validate_compose ts ws w)"

subsection \<open>ValidatorChain\<close>

text \<open>
  A validator object, as the chain sees it: the name of its class and its \<open>validate\<close>,
  which returns a pair or raises an \<^verbatim>\<open>Exception\<close> (\<open>Inl\<close> of its \<^verbatim>\<open>str\<close>), and leaves a
  world. The base class \<open>Validator\<close> raises \<^verbatim>\<open>NotImplementedError\<close>.
\<close>

record Validator =
  class_name :: string
  validate :: "world \<Rightarrow> (string + bool \<times> string) \<times> world"

record ValidationRecord =
  validator :: string
  passed :: bool
  message :: string

definition Validator_base :: Validator where
  "Validator_base = \<lparr>class_name = ''Validator'', validate = (\<lambda>w. (Inl [], w))\<rparr>"

definition returning :: "(world \<Rightarrow> (bool \<times> string) \<times> world) \<Rightarrow> world \<Rightarrow> (string + bool \<times> string) \<times> world" where
  "returning f w = (case f w of (r, w') \<Rightarrow> (Inr r, w'))"

definition ValidatorChain_validators :: "tools \<Rightarrow> string \<Rightarrow> Validator list" where
  "ValidatorChain_validators ts ws =
     [\<lparr>class_name = ''PythonValidator'', validate = returning (PythonValidator_validate ts ws)\<rparr>,
      \<lparr>class_name = ''JavaScriptValidator'',
       validate = returning (JavaScriptValidator_validate ts ws)\<rparr>,
      \<lparr>class_name = ''DockerValidator'', validate = returning (DockerValidator_validate ts ws)\<rparr>]"

text \<open>The loop of \<open>validate_all\<close>, with its two accumulators.\<close>

fun validate_loop ::
  "Validator list \<Rightarrow> bool \<times> ValidationRecord list \<Rightarrow> world
     \<Rightarrow> (bool \<times> ValidationRecord list) \<times> world" where
  "validate_loop [] acc w = (acc, w)"
| "validate_loop (v # vs) (all_passed, results) w =
     (case validate v w of
        (Inr (p, m), w1) \<Rightarrow>
          validate_loop vs
            (if \<not> p then False else all_passed,
             results @ [\<lparr>validator = class_name v, passed = p, message = m\<rparr>]) w1
      | (Inl e, w1) \<Rightarrow>
          validate_loop vs
            (False,
             results @ [\<lparr>validator = class_name v, passed = False, message = ''Error: '' @ e\<rparr>])
            w1)"

definition validate_all :: "Validator list \<Rightarrow> world \<Rightarrow> (bool \<times> ValidationRecord list) \<times> world" where
  "validate_all validators w = validate_loop validators (True, []) w"

section \<open>Concrete workspaces and tools\<close>

text \<open>The inputs at which the theorems below are evaluated.\<close>

definition empty_world :: world where
  "empty_world = \<lparr>files = [], calls = [], writable = True\<rparr>"

definition docker_world :: world where
  "docker_world =
     \<lparr>files = [(''Dockerfile'', Text ''FROM python:3.12'')], calls = [], writable = True\<rparr>"

text \<open>A workspace in which \<^verbatim>\<open>Dockerfile\<close> is a directory.\<close>

definition dockerdir_world :: world where
  "dockerdir_world =
     \<lparr>files = [(''Dockerfile/notes.txt'', Text ''moved'')], calls = [], writable = True\<rparr>"

text \<open>Tools that all complete with return code 0, print nothing and change no file.\<close>

definition quiet_sh :: shell where
  "quiet_sh cmd fs = (Completed 0 [] [], fs)"

definition quiet_tools :: tools where
  "quiet_tools =
     \<lparr>sh = quiet_sh, json_loads = (\<lambda>s. None), str_lower = ascii_lower, yaml = None\<rparr>"

text \<open>The text the docker fixer writes, line by line.\<close>

definition dockerignore_text :: string where
  "dockerignore_text =
     ''.git'' @ nl @ ''.gitignore'' @ nl @ ''.dockerignore'' @ nl @ ''.env'' @ nl @
     ''node_modules'' @ nl @ ''__pycache__'' @ nl @ ''.pytest_cache'' @ nl @ ''.venv'' @ nl @
     ''build'' @ nl @ ''dist'' @ nl @ ''*.egg-info'' @ nl @ ''.vscode'' @ nl @ ''.idea''"

text \<open>A workspace that holds only a \<^verbatim>\<open>package.json\<close>, and an \<^verbatim>\<open>npm outdated\<close> that lists a package.\<close>

definition dq :: string where
  "dq = [CHR 0x22]"

definition npm_world :: world where
  "npm_world = \<lparr>files = [(''package.json'', Text ''{}'')], calls = [], writable = True\<rparr>"

definition npm_sh :: shell where
  "npm_sh cmd fs =
     (if cmd = npm_outdated
      then (Completed 1 (''{'' @ dq @ ''lodash'' @ dq @ '': {}}'') [], fs)
      else (Completed 0 [] [], fs))"

definition npm_tools :: tools where
  "npm_tools =
     \<lparr>sh = npm_sh, json_loads = (\<lambda>s. None), str_lower = ascii_lower, yaml = None\<rparr>"

text \<open>A security scanner that reports one result.\<close>

definition bandit_report :: json where
  "bandit_report =
     JObj [(''results'',
       JList [JObj [(''severity'', JStr ''HIGH''), (''filename'', JStr ''app.py''),
                    (''line_number'', JInt 7),
                    (''issue_text'', JStr ''Use of exec detected.'')]])]"

definition bandit_sh :: shell where
  "bandit_sh cmd fs =
     (if cmd = bandit_cmd ''.'' then (Completed 1 ''report'' [], fs)
      else (Completed 0 [] [], fs))"

definition bandit_tools :: tools where
  "bandit_tools =
     \<lparr>sh = bandit_sh,
      json_loads = (\<lambda>s. if s = ''report'' then Some bandit_report else None),
      str_lower = ascii_lower, yaml = None\<rparr>"

definition exec_issue :: Issue where
  "exec_issue =
     Issue_init ''security'' ''high'' (JStr ''app.py'') (JInt 7)
       (JStr ''Use of exec detected.'') False None"

text \<open>The three validators of the chain after an instance of the base class.\<close>

definition chain_with_base :: "Validator list" where
  "chain_with_base = Validator_base # ValidatorChain_validators quiet_tools ''.''"



definition bare_issue :: Issue where
  "bare_issue =
     Issue_init ''formatting'' ''low'' (JStr ''app.py'') (JInt 1) (JStr ''not formatted'')
       True None"



definition timeout_sh :: shell where
  "timeout_sh cmd fs = (Raised ''timed out'', fs)"

definition timeout_tools :: tools where
  "timeout_tools =
     \<lparr>sh = timeout_sh, json_loads = (\<lambda>s. None), str_lower = ascii_lower, yaml = None\<rparr>"

text \<open>
  A formatter that reports unformatted code followed by an import sorter that times out;
  a \<^verbatim>\<open>pip\<close> that times out beside an \<^verbatim>\<open>npm outdated\<close> that lists a package, in a
  workspace with both manifests.
\<close>

definition isort_timeout_sh :: shell where
  "isort_timeout_sh cmd fs =
     (if cmd = black_check ''.'' then (Completed 1 [] [], fs)
      else if cmd = isort_check ''.'' then (Raised ''timed out'', fs)
      else (Completed 0 [] [], fs))"

definition isort_timeout_tools :: tools where
  "isort_timeout_tools =
     \<lparr>sh = isort_timeout_sh, json_loads = (\<lambda>s. None), str_lower = ascii_lower, yaml = None\<rparr>"

definition pip_timeout_sh :: shell where
  "pip_timeout_sh cmd fs =
     (if cmd = pip_outdated then (Raised ''timed out'', fs) else npm_sh cmd fs)"

definition pip_timeout_tools :: tools where
  "pip_timeout_tools =
     \<lparr>sh = pip_timeout_sh, json_loads = (\<lambda>s. None), str_lower = ascii_lower, yaml = None\<rparr>"

definition both_manifests_world :: world where
  "both_manifests_world =
     \<lparr>files = [(''requirements.txt'', Text ''flask''), (''package.json'', Text ''{}'')],
      calls = [], writable = True\<rparr>"

text \<open>The workspace the docker fixer leaves from \<open>docker_world\<close>.\<close>

definition fixed_docker_world :: world where
  "fixed_docker_world =
     \<lparr>files = [(''.dockerignore'', Text dockerignore_text),
               (''Dockerfile'', Text ''FROM python:3.12'')],
      calls = [], writable = True\<rparr>"








text \<open>
  An \<^verbatim>\<open>npm update\<close> that fails; a \<^verbatim>\<open>pip install\<close> that fails beside a \<^verbatim>\<open>pip list\<close>
  that prints nothing. Both list an outdated npm package.
\<close>

definition npm_update_fails_sh :: shell where
  "npm_update_fails_sh cmd fs =
     (if cmd = [''npm'', ''update''] then (Completed 1 [] ''npm ERR!'', fs) else npm_sh cmd fs)"

definition npm_update_fails_tools :: tools where
  "npm_update_fails_tools =
     \<lparr>sh = npm_update_fails_sh, json_loads = (\<lambda>s. None), str_lower = ascii_lower,
      yaml = None\<rparr>"

definition pip_install_fails_sh :: shell where
  "pip_install_fails_sh cmd fs =
     (if cmd = pip_install_cmd ''.'' ''requirements.txt'' then (Completed 1 [] [], fs)
      else npm_sh cmd fs)"

definition pip_install_fails_tools :: tools where
  "pip_install_fails_tools =
     \<lparr>sh = pip_install_fails_sh, json_loads = (\<lambda>s. None), str_lower = ascii_lower,
      yaml = None\<rparr>"

section \<open>Notions used in the statements about issues and tools\<close>

text \<open>
  \<open>has_remedy i\<close>: the fix command of \<open>i\<close> is present and not the empty string.
  \<open>raises r\<close>: \<^verbatim>\<open>subprocess.run\<close> raised instead of returning.
\<close>

definition has_remedy :: "Issue \<Rightarrow> bool" where
  "has_remedy i = (case fix_command i of None \<Rightarrow> False | Some c \<Rightarrow> c \<noteq> [])"

definition raises :: "proc \<Rightarrow> bool" where
  "raises r = (case r of Completed rc out err \<Rightarrow> False | _ \<Rightarrow> True)"

section \<open>Notions used in the statements about the validator chain\<close>

text \<open>
  \<open>world_at vs w i\<close> is the world in which the \<open>i\<close>-th validator of \<open>vs\<close> runs when the
  chain starts in \<open>w\<close>; \<open>record_of v w\<close> is the record the loop body appends for \<open>v\<close>
  run in \<open>w\<close>.
\<close>

definition record_of :: "Validator \<Rightarrow> world \<Rightarrow> ValidationRecord" where
  "record_of v w =
     (case fst (validate v w) of
        Inr (p, m) \<Rightarrow> \<lparr>validator = class_name v, passed = p, message = m\<rparr>
      | Inl e \<Rightarrow> \<lparr>validator = class_name v, passed = False, message = ''Error: '' @ e\<rparr>)"

fun chain_records :: "Validator list \<Rightarrow> world \<Rightarrow> ValidationRecord list" where
  "chain_records [] w = []"
| "chain_records (v # vs) w = record_of v w # chain_records vs (snd (validate v w))"

fun world_at :: "Validator list \<Rightarrow> world \<Rightarrow> nat \<Rightarrow> world" where
  "world_at [] w i = w"
| "world_at (v # vs) w 0 = w"
| "world_at (v # vs) w (Suc i) = world_at vs (snd (validate v w)) i"

section \<open>Notions used in the statements about fixers\<close>

text \<open>\<open>with_dockerignore w\<close> is \<open>w\<close> with the default list written to \<^verbatim>\<open>.dockerignore\<close>.\<close>

definition with_dockerignore :: "world \<Rightarrow> world" where
  "with_dockerignore w =
     w\<lparr>files := (''.dockerignore'', Text dockerignore_text)
                 # filter (\<lambda>e. fst e \<noteq> ''.dockerignore'') (files w)\<rparr>"

text \<open>
  \<open>cmds_succeed run_cmd cmds fs\<close>: the commands \<open>cmds\<close>, run one after the other from the
  files \<open>fs\<close>, all complete with return code 0, and \<open>Some\<close> of the files they leave;
  \<open>None\<close> as soon as one of them raises or completes with another return code.
\<close>

fun cmds_succeed :: "shell \<Rightarrow> string list list \<Rightarrow> fs \<Rightarrow> fs option" where
  "cmds_succeed run_cmd [] fs = Some fs"
| "cmds_succeed run_cmd (cmd # cmds) fs =
     (case run_cmd cmd fs of
        (Completed rc out err, fs') \<Rightarrow> (if rc = 0 then cmds_succeed run_cmd cmds fs' else None)
      | (r, fs') \<Rightarrow> None)"

text \<open>\<open>succeeds r\<close>: the program completed with return code 0.\<close>

definition succeeds :: "proc \<Rightarrow> bool" where
  "succeeds r = (case r of Completed rc out err \<Rightarrow> rc = 0 | _ \<Rightarrow> False)"

section \<open>Files\<close>

lemma ancestors_no_slash: "CHR ''/'' \<notin> set p \<Longrightarrow> ancestors pre p = []"
  by (induction p arbitrary: pre) auto

lemma set_entries:
  "set (entries fs) = (\<Union>e \<in> set fs. set (ancestors [] (fst e)) \<union> {fst e})"
  by (auto simp: entries_def)

lemma map_of_filter_other:
  "q \<noteq> p \<Longrightarrow> map_of (filter (\<lambda>e. fst e \<noteq> p) xs) q = map_of xs q"
  by (induction xs) auto

lemma node_at_written_same: "node_at ((p, n) # fs) p = Some n"
  by (simp add: node_at_def)

lemma node_at_written_other:
  assumes "CHR ''/'' \<notin> set p" and "q \<noteq> p"
  shows "node_at ((p, n) # filter (\<lambda>e. fst e \<noteq> p) fs) q = node_at fs q"
proof -
  have m: "map_of ((p, n) # filter (\<lambda>e. fst e \<noteq> p) fs) q = map_of fs q"
    using assms(2) by (simp add: map_of_filter_other)
  have "q \<in> set (entries ((p, n) # filter (\<lambda>e. fst e \<noteq> p) fs)) \<longleftrightarrow> q \<in> set (entries fs)"
  proof
    assume "q \<in> set (entries ((p, n) # filter (\<lambda>e. fst e \<noteq> p) fs))"
    then obtain e where "e \<in> set fs" "q \<in> set (ancestors [] (fst e)) \<union> {fst e}"
      using assms by (auto simp: set_entries ancestors_no_slash)
    then show "q \<in> set (entries fs)"
      unfolding set_entries by blast
  next
    assume "q \<in> set (entries fs)"
    then obtain e where e: "e \<in> set fs" "q \<in> set (ancestors [] (fst e)) \<union> {fst e}"
      unfolding set_entries by blast
    then have "fst e \<noteq> p"
      using assms by (auto simp: ancestors_no_slash)
    then have "e \<in> set (filter (\<lambda>e. fst e \<noteq> p) fs)"
      using e(1) by simp
    then show "q \<in> set (entries ((p, n) # filter (\<lambda>e. fst e \<noteq> p) fs))"
      using e(2) unfolding set_entries by (intro UN_I [of e]) simp_all
  qed
  then show ?thesis
    by (simp add: node_at_def m del: map_of.simps)
qed

lemma strip_default_ignores: "strip default_ignores = dockerignore_text"
  by (simp add: strip_def default_ignores_def dockerignore_text_def nl_def isspace_def)

lemma read_text_Inr_exists: "read_text w p = Inr s \<Longrightarrow> exists_path w p"
  by (auto simp: read_text_def exists_path_def split: option.splits)

section \<open>The docker fixer\<close>

lemma optimize_dockerfile_first:
  assumes "read_text w ''Dockerfile'' = Inr content"
    and "\<not> exists_path w ''.dockerignore''" and "writable w"
  shows "optimize_dockerfile w = Inr (True, with_dockerignore w)"
  using assms read_text_Inr_exists [OF assms(1)]
  by (simp add: optimize_dockerfile_def write_text_def exists_path_def strip_default_ignores
      with_dockerignore_def)

lemma read_text_with_dockerignore:
  "read_text (with_dockerignore w) p
     = (if p = ''.dockerignore'' then Inr dockerignore_text else read_text w p)"
  by (simp add: read_text_def with_dockerignore_def node_at_written_same node_at_written_other
      del: map_of.simps filter.simps)

lemma exists_with_dockerignore:
  "exists_path (with_dockerignore w) p = (p = ''.dockerignore'' \<or> exists_path w p)"
proof (cases "p = ''.dockerignore''")
  case True
  then show ?thesis
    by (simp add: exists_path_def with_dockerignore_def node_at_written_same)
next
  case False
  then have "node_at (files (with_dockerignore w)) p = node_at (files w) p"
    by (simp add: with_dockerignore_def node_at_written_other del: map_of.simps filter.simps)
  then show ?thesis
    using False by (simp add: exists_path_def)
qed

lemma optimize_dockerfile_second:
  assumes "read_text w ''Dockerfile'' = Inr content"
  shows "optimize_dockerfile (with_dockerignore w) = Inr (False, with_dockerignore w)"
  using assms read_text_Inr_exists [OF assms]
  by (simp add: optimize_dockerfile_def exists_with_dockerignore read_text_with_dockerignore)

text \<open>
  C9 as stated fails: a \<^verbatim>\<open>Dockerfile\<close> that is a directory exists, and the fix action
  raises on reading it, before it writes anything.
\<close>

theorem docker_fix_raises_on_directory:
  "exists_path dockerdir_world ''Dockerfile''
   \<and> \<not> exists_path dockerdir_world ''.dockerignore''
   \<and> optimize_dockerfile dockerdir_world = Inl IsADirectoryError"
  by (simp add: optimize_dockerfile_def exists_path_def read_text_def node_at_def entries_def
      dockerdir_world_def)

text \<open>
  C9, amended. In a writable workspace with a \<^verbatim>\<open>Dockerfile\<close> that can be read as text
  and no \<^verbatim>\<open>.dockerignore\<close>, the docker fix action reports a change and leaves a
  \<^verbatim>\<open>.dockerignore\<close> holding the default exclusion list (thirteen patterns, one per
  line); nothing else can be read differently afterwards and no external program is
  started. Applied again to the workspace it left, the action reports no change and
  leaves the workspace as it is.
\<close>

theorem docker_fix_creates_dockerignore:
  assumes "read_text w ''Dockerfile'' = Inr content"
    and "\<not> exists_path w ''.dockerignore''" and "writable w"
  shows "\<exists>w'. optimize_dockerfile w = Inr (True, w')
       \<and> read_text w' ''.dockerignore'' = Inr dockerignore_text
       \<and> (\<forall>p. p \<noteq> ''.dockerignore'' \<longrightarrow> read_text w' p = read_text w p)
       \<and> calls w' = calls w
       \<and> optimize_dockerfile w' = Inr (False, w')"
proof (intro exI conjI)
  show "optimize_dockerfile w = Inr (True, with_dockerignore w)"
    using assms by (rule optimize_dockerfile_first)
  show "read_text (with_dockerignore w) ''.dockerignore'' = Inr dockerignore_text"
    by (simp add: read_text_with_dockerignore)
  show "\<forall>p. p \<noteq> ''.dockerignore'' \<longrightarrow> read_text (with_dockerignore w) p = read_text w p"
    by (simp add: read_text_with_dockerignore)
  show "calls (with_dockerignore w) = calls w"
    by (simp add: with_dockerignore_def)
  show "optimize_dockerfile (with_dockerignore w) = Inr (False, with_dockerignore w)"
    using assms(1) by (rule optimize_dockerfile_second)
qed

theorem docker_fix_creates_dockerignore_witness:
  "read_text docker_world ''Dockerfile'' = Inr ''FROM python:3.12''
   \<and> \<not> exists_path docker_world ''.dockerignore''
   \<and> writable docker_world
   \<and> optimize_dockerfile docker_world = Inr (True, fixed_docker_world)
   \<and> read_text fixed_docker_world ''.dockerignore'' = Inr dockerignore_text
   \<and> read_text fixed_docker_world ''Dockerfile'' = Inr ''FROM python:3.12''
   \<and> optimize_dockerfile fixed_docker_world = Inr (False, fixed_docker_world)"
proof -
  have a: "read_text docker_world ''Dockerfile'' = Inr ''FROM python:3.12''"
    by (simp add: read_text_def node_at_def docker_world_def)
  have b: "\<not> exists_path docker_world ''.dockerignore''"
    by (simp add: exists_path_def node_at_def entries_def docker_world_def)
  have c: "writable docker_world"
    by (simp add: docker_world_def)
  have d: "optimize_dockerfile docker_world = Inr (True, fixed_docker_world)"
    using a b c
    by (simp add: optimize_dockerfile_def write_text_def exists_path_def node_at_def
        entries_def strip_default_ignores fixed_docker_world_def docker_world_def)
  obtain w' where w': "optimize_dockerfile docker_world = Inr (True, w')"
    "read_text w' ''.dockerignore'' = Inr dockerignore_text"
    "\<forall>p. p \<noteq> ''.dockerignore'' \<longrightarrow> read_text w' p = read_text docker_world p"
    "optimize_dockerfile w' = Inr (False, w')"
    using docker_fix_creates_dockerignore [OF a b c] by blast
  have e: "w' = fixed_docker_world"
    using d w'(1) by simp
  have f: "read_text fixed_docker_world ''Dockerfile'' = Inr ''FROM python:3.12''"
    using w'(3) a unfolding e by simp
  show ?thesis
    using a b c d f w'(2,4) unfolding e by blast
qed


section \<open>The docker detector\<close>







section \<open>The orchestrator\<close>



section \<open>Security findings\<close>

lemma bandit_results_security:
  "\<forall>i \<in> set acc. issue_type i = ''security'' \<and> \<not> fixable i \<and> fix_command i = None \<Longrightarrow>
   \<forall>i \<in> set (bandit_results ts rs acc). issue_type i = ''security'' \<and> \<not> fixable i \<and> fix_command i = None"
  by (induction ts rs acc rule: bandit_results.induct)
     (auto simp: Issue_init_def split: json.splits)

lemma detect_security_issues_unfixable:
  "i \<in> set (fst (detect_security_issues ts ws w)) \<Longrightarrow>
   issue_type i = ''security'' \<and> \<not> fixable i \<and> fix_command i = None"
  using bandit_results_security [of "[]"]
  by (auto simp: detect_security_issues_def
      split: prod.splits proc.splits if_splits option.splits json.splits)

lemma apply_fixes_ignores_security:
  "apply_fixes ts ws issues st
     = apply_fixes ts ws (filter (\<lambda>i. issue_type i \<noteq> ''security'') issues) st"
proof -
  have f: "filter (\<lambda>i. issue_type i \<in> set [''formatting'', ''imports''])
             (filter (\<lambda>i. issue_type i \<noteq> ''security'') issues)
           = filter (\<lambda>i. issue_type i \<in> set [''formatting'', ''imports'']) issues"
    by (induction issues) auto
  have d: "filter (\<lambda>i. issue_type i \<in> set [''dependencies'', ''npm-dependencies''])
             (filter (\<lambda>i. issue_type i \<noteq> ''security'') issues)
           = filter (\<lambda>i. issue_type i \<in> set [''dependencies'', ''npm-dependencies'']) issues"
    by (induction issues) auto
  show ?thesis
    unfolding apply_fixes_def f d ..
qed

lemma apply_fixes_only_security:
  assumes "\<forall>i \<in> set issues. issue_type i = ''security''"
  shows "apply_fixes ts ws issues st = st"
proof -
  have "filter (\<lambda>i. issue_type i \<noteq> ''security'') issues = []"
    using assms by (induction issues) auto
  then have "apply_fixes ts ws issues st = apply_fixes ts ws [] st"
    using apply_fixes_ignores_security [of ts ws issues st] by simp
  then show ?thesis by (simp add: apply_fixes_def)
qed

lemma bandit_detect:
  "detect_security_issues bandit_tools ''.'' empty_world
     = ([Issue_init ''security'' ''high'' (JStr ''app.py'') (JInt 7)
           (JStr ''Use of exec detected.'') False None],
        empty_world\<lparr>calls := [bandit_cmd ''.'']\<rparr>)"
  by (simp add: detect_security_issues_def subprocess_run_def bandit_tools_def bandit_sh_def
      empty_world_def bandit_report_def dict_get_def ascii_lower_def ascii_lower_char_def)

text \<open>
  C6. Every issue of the security detector has type \<^verbatim>\<open>security\<close>, \<open>fixable = False\<close> and
  no fix command. \<open>apply_fixes\<close> does with a report what it does with the report without
  its security issues, and on a report of security issues only it starts no program and
  leaves the counter and the world as they are.
\<close>

theorem security_findings_never_fixed:
  "(\<forall>i \<in> set (fst (detect_security_issues ts ws w)).
      issue_type i = ''security'' \<and> \<not> fixable i \<and> fix_command i = None)
   \<and> apply_fixes ts ws issues st
       = apply_fixes ts ws (filter (\<lambda>i. issue_type i \<noteq> ''security'') issues) st
   \<and> ((\<forall>i \<in> set issues. issue_type i = ''security'') \<longrightarrow> apply_fixes ts ws issues st = st)"
  using detect_security_issues_unfixable apply_fixes_ignores_security apply_fixes_only_security
  by blast

theorem security_findings_never_fixed_witness:
  "fst (detect_security_issues bandit_tools ''.'' empty_world) = [exec_issue]
   \<and> issue_type exec_issue = ''security''
   \<and> \<not> fixable exec_issue
   \<and> apply_fixes bandit_tools ''.'' [exec_issue] (0, empty_world) = (0, empty_world)"
proof -
  have a: "fst (detect_security_issues bandit_tools ''.'' empty_world) = [exec_issue]"
    by (simp add: bandit_detect exec_issue_def)
  have b: "issue_type exec_issue = ''security''"
    by (simp add: exec_issue_def Issue_init_def)
  then have b': "\<forall>i \<in> set [exec_issue]. issue_type i = ''security''"
    by simp
  have c: "\<not> fixable exec_issue"
    using a security_findings_never_fixed [of bandit_tools "''.''" empty_world]
    by simp
  have d: "apply_fixes bandit_tools ''.'' [exec_issue] (0, empty_world) = (0, empty_world)"
    using b' security_findings_never_fixed
      [of bandit_tools "''.''" empty_world "[exec_issue]" "(0, empty_world)"]
    by blast
  show ?thesis
    using a b c d by blast
qed

section \<open>The validator chain\<close>

lemma validate_loop_records:
  "validate_loop vs (ap, rs) w
     = ((ap \<and> list_all passed (chain_records vs w), rs @ chain_records vs w),
        world_at vs w (length vs))"
proof (induction vs arbitrary: ap rs w)
  case Nil
  then show ?case by simp
next
  case (Cons v vs)
  show ?case
  proof (cases "validate v w")
    case (Pair r w1)
    then show ?thesis
      by (cases r) (auto simp: Cons.IH record_of_def split: prod.splits)
  qed
qed

lemma length_chain_records: "length (chain_records vs w) = length vs"
  by (induction vs arbitrary: w) simp_all

lemma chain_records_nth:
  "i < length vs \<Longrightarrow> chain_records vs w ! i = record_of (vs ! i) (world_at vs w i)"
proof (induction vs arbitrary: w i)
  case Nil
  then show ?case by simp
next
  case (Cons v vs)
  then show ?case by (cases i) simp_all
qed

text \<open>
  C4. \<open>validate_all\<close> returns one record per validator, in order and under the validator's
  class name, whatever the earlier validators returned. A validator that raises gives the
  record \<open>passed = False\<close> with \<^verbatim>\<open>Error: \<close> and the exception's text as message, and the
  loop goes on; one that returns gives the record of what it returned. \<open>all_passed\<close> is
  the conjunction of the \<open>passed\<close> fields.
\<close>

theorem validate_all_complete:
  "length (snd (fst (validate_all vs w))) = length vs
   \<and> fst (fst (validate_all vs w)) = (\<forall>r \<in> set (snd (fst (validate_all vs w))). passed r)
   \<and> (\<forall>i < length vs.
        validator (snd (fst (validate_all vs w)) ! i) = class_name (vs ! i)
        \<and> (\<forall>e. fst (validate (vs ! i) (world_at vs w i)) = Inl e \<longrightarrow>
              snd (fst (validate_all vs w)) ! i
                = \<lparr>validator = class_name (vs ! i), passed = False,
                   message = ''Error: '' @ e\<rparr>)
        \<and> (\<forall>p m. fst (validate (vs ! i) (world_at vs w i)) = Inr (p, m) \<longrightarrow>
              snd (fst (validate_all vs w)) ! i
                = \<lparr>validator = class_name (vs ! i), passed = p, message = m\<rparr>))"
proof -
  have r: "snd (fst (validate_all vs w)) = chain_records vs w"
    and a: "fst (fst (validate_all vs w)) = list_all passed (chain_records vs w)"
    by (simp_all add: validate_all_def validate_loop_records)
  have n: "chain_records vs w ! i = record_of (vs ! i) (world_at vs w i)" if "i < length vs" for i
    using that by (rule chain_records_nth)
  show ?thesis
    unfolding r a
    by (auto simp: length_chain_records list_all_iff n record_of_def split: sum.splits)
qed

theorem validate_all_complete_witness:
  "(0::nat) < length chain_with_base
   \<and> fst (validate (chain_with_base ! 0) (world_at chain_with_base empty_world 0)) = Inl []
   \<and> length (snd (fst (validate_all chain_with_base empty_world))) = 4
   \<and> snd (fst (validate_all chain_with_base empty_world)) ! 0
       = \<lparr>validator = ''Validator'', passed = False, message = ''Error: ''\<rparr>
   \<and> fst (fst (validate_all chain_with_base empty_world)) = False"
proof -
  let ?rs = "snd (fst (validate_all chain_with_base empty_world))"
  have l: "length chain_with_base = 4"
    by (simp add: chain_with_base_def ValidatorChain_validators_def)
  have z: "chain_with_base ! 0 = Validator_base"
    by (simp add: chain_with_base_def)
  have r: "fst (validate (chain_with_base ! 0) (world_at chain_with_base empty_world 0)) = Inl []"
    by (simp add: chain_with_base_def Validator_base_def)
  have c: "class_name (chain_with_base ! 0) = ''Validator''"
    by (simp add: z Validator_base_def)
  note t = validate_all_complete [of chain_with_base empty_world]
  from t have t1: "length ?rs = 4"
    using l by simp
  from t have t2: "fst (fst (validate_all chain_with_base empty_world))
       = (\<forall>r \<in> set ?rs. passed r)"
    by blast
  from t l r have t3: "?rs ! 0
       = \<lparr>validator = class_name (chain_with_base ! 0), passed = False,
          message = ''Error: '' @ []\<rparr>"
    by (metis zero_less_numeral)
  have "?rs ! 0 \<in> set ?rs"
    using t1 by (intro nth_mem) simp
  then have t4: "\<not> (\<forall>r \<in> set ?rs. passed r)"
    using t3 by (metis ValidationRecord.select_convs(2))
  show ?thesis
    using l r t1 t2 t3 t4 c by simp
qed

section \<open>Issues and their fix commands\<close>

text \<open>
  C1 as stated fails: the constructor of \<open>Issue\<close> accepts \<open>fixable = True\<close> with no fix
  command.
\<close>

theorem issue_without_remedy_constructed:
  "fixable bare_issue \<and> fix_command bare_issue = None"
  by (simp add: bare_issue_def Issue_init_def)

lemma npm_scenario_detect:
  "run_all_detectors npm_tools ''.'' npm_world
     = ([npm_issue],
        npm_world\<lparr>calls := [black_check ''.'', isort_check ''.'', bandit_cmd ''.'',
                             npm_outdated]\<rparr>)"
  by (simp add: run_all_detectors_def detect_formatting_issues_def detect_linting_issues_def
      detect_security_issues_def detect_dependency_issues_def subprocess_run_def
      npm_tools_def npm_sh_def npm_world_def rglob_py_def glob_requirements_def
      exists_path_def node_at_def entries_def endswith_def startswith_def black_check_def
      isort_check_def bandit_cmd_def npm_outdated_def dq_def)

lemma formatting_remedy:
  "i \<in> set (fst (detect_formatting_issues ts ws w)) \<Longrightarrow> has_remedy i"
  by (auto simp: detect_formatting_issues_def has_remedy_def formatting_issue_def
      imports_issue_def Issue_init_def Let_def split: prod.splits proc.splits if_splits)

lemma linting_remedy:
  "i \<in> set (fst (detect_linting_issues ts ws w)) \<Longrightarrow> has_remedy i"
  by (auto simp: detect_linting_issues_def has_remedy_def linting_issue_def
      Issue_init_def Let_def split: prod.splits proc.splits if_splits)

lemma pip_round_remedy:
  "\<forall>i \<in> set (fst acc). fixable i \<longrightarrow> has_remedy i \<Longrightarrow>
   \<forall>i \<in> set (fst (pip_round ts ws req acc)). fixable i \<longrightarrow> has_remedy i"
  by (cases acc)
     (auto simp: pip_round_def has_remedy_def dependencies_issue_def Issue_init_def
      split: prod.splits proc.splits if_splits option.splits json.splits)

lemma pip_loop_remedy:
  "\<forall>i \<in> set (fst acc). fixable i \<longrightarrow> has_remedy i \<Longrightarrow>
   \<forall>i \<in> set (fst (fold (pip_round ts ws) reqs acc)). fixable i \<longrightarrow> has_remedy i"
proof (induction reqs arbitrary: acc)
  case Nil
  then show ?case by simp
next
  case (Cons req reqs)
  show ?case
    using Cons.IH [OF pip_round_remedy [OF Cons.prems]] by simp
qed

lemma dependency_remedy:
  assumes "i \<in> set (fst (detect_dependency_issues ts ws w))" and "fixable i"
  shows "has_remedy i"
proof -
  obtain issues w1 where f: "fold (pip_round ts ws) (glob_requirements w) ([], w) = (issues, w1)"
    by (cases "fold (pip_round ts ws) (glob_requirements w) ([], w)")
  have p: "\<forall>i \<in> set issues. fixable i \<longrightarrow> has_remedy i"
    using pip_loop_remedy [of "([], w)" ts ws "glob_requirements w"] f by simp
  have n: "has_remedy npm_issue"
    by (simp add: has_remedy_def npm_issue_def Issue_init_def)
  have "i \<in> set issues \<or> i = npm_issue"
    using assms(1)
    by (auto simp: detect_dependency_issues_def f split: prod.splits proc.splits if_splits)
  then show ?thesis
    using p n assms(2) by blast
qed

lemma security_remedy:
  "i \<in> set (fst (detect_security_issues ts ws w)) \<Longrightarrow> \<not> fixable i"
  using detect_security_issues_unfixable by blast

lemma set_run_all_detectors:
  "i \<in> set (fst (run_all_detectors ts ws w)) \<Longrightarrow>
   (\<exists>w'. i \<in> set (fst (detect_formatting_issues ts ws w')))
   \<or> (\<exists>w'. i \<in> set (fst (detect_linting_issues ts ws w')))
   \<or> (\<exists>w'. i \<in> set (fst (detect_security_issues ts ws w')))
   \<or> (\<exists>w'. i \<in> set (fst (detect_dependency_issues ts ws w')))"
  by (auto simp: run_all_detectors_def split: prod.splits) (metis fst_conv)+

text \<open>
  C1, amended. The constructor of \<open>Issue\<close> stores \<open>fixable\<close> and \<open>fix_command\<close> as given
  and checks nothing. Every issue that \<open>run_all_detectors\<close> returns with \<open>fixable = True\<close>
  carries a fix command that is not empty.
\<close>

theorem detected_fixable_issues_have_remedy:
  "fixable (Issue_init t sev f l m fx cmd) = fx
   \<and> fix_command (Issue_init t sev f l m fx cmd) = cmd
   \<and> (\<forall>i \<in> set (fst (run_all_detectors ts ws w)). fixable i \<longrightarrow> has_remedy i)"
proof -
  have "has_remedy i" if "i \<in> set (fst (run_all_detectors ts ws w))" and "fixable i" for i
    using set_run_all_detectors [OF that(1)] that(2)
      formatting_remedy linting_remedy security_remedy dependency_remedy
    by blast
  then show ?thesis
    by (simp add: Issue_init_def)
qed

theorem detected_fixable_issues_have_remedy_witness:
  "npm_issue \<in> set (fst (run_all_detectors npm_tools ''.'' npm_world))
   \<and> fixable npm_issue
   \<and> has_remedy npm_issue
   \<and> fix_command npm_issue = Some ''npm update''"
proof -
  have a: "npm_issue \<in> set (fst (run_all_detectors npm_tools ''.'' npm_world))"
    by (simp add: npm_scenario_detect)
  have b: "fixable npm_issue" "fix_command npm_issue = Some ''npm update''"
    by (simp_all add: npm_issue_def Issue_init_def)
  have c: "has_remedy npm_issue"
    using a b(1) detected_fixable_issues_have_remedy [of _ _ _ _ _ _ _ npm_tools "''.''" npm_world]
    by blast
  show ?thesis
    using a b c by blast
qed

section \<open>Validators without their ecosystem\<close>





section \<open>Fixers applied again\<close>











lemma pip_upgrade_all_ok:
  "cmds_succeed (sh ts) (map (pip_install_cmd ws) reqs) (files w) = Some fs1 \<Longrightarrow>
   pip_upgrade_all ts ws reqs w
     = (True, w\<lparr>files := fs1, calls := calls w @ map (pip_install_cmd ws) reqs\<rparr>)"
proof (induction reqs arbitrary: w)
  case Nil
  then show ?case by simp
next
  case (Cons req reqs)
  from Cons.prems obtain out err fs' where
    c: "sh ts (pip_install_cmd ws req) (files w) = (Completed 0 out err, fs')"
    and r: "cmds_succeed (sh ts) (map (pip_install_cmd ws) reqs) fs' = Some fs1"
    by (auto split: prod.splits proc.splits if_splits)
  let ?w1 = "w\<lparr>files := fs', calls := calls w @ [pip_install_cmd ws req]\<rparr>"
  have "pip_upgrade_all ts ws reqs ?w1
     = (True, ?w1\<lparr>files := fs1, calls := calls ?w1 @ map (pip_install_cmd ws) reqs\<rparr>)"
    using r by (intro Cons.IH) simp
  then show ?case
    using c by (simp add: subprocess_run_check_def subprocess_run_def)
qed

lemma pip_upgrade_all_fail:
  "cmds_succeed (sh ts) (map (pip_install_cmd ws) reqs) (files w) = None \<Longrightarrow>
   fst (pip_upgrade_all ts ws reqs w) = False"
proof (induction reqs arbitrary: w)
  case Nil
  then show ?case by simp
next
  case (Cons req reqs)
  show ?case
  proof (cases "sh ts (pip_install_cmd ws req) (files w)")
    case (Pair r fs')
    show ?thesis
    proof (cases "succeeds r")
      case True
      then obtain out err where r: "r = Completed 0 out err"
        by (cases r) (auto simp: succeeds_def)
      have "cmds_succeed (sh ts) (map (pip_install_cmd ws) reqs) fs' = None"
        using Cons.prems Pair r by simp
      then have "fst (pip_upgrade_all ts ws reqs
                   (w\<lparr>files := fs', calls := calls w @ [pip_install_cmd ws req]\<rparr>)) = False"
        by (intro Cons.IH) simp
      then show ?thesis
        using Pair r by (simp add: subprocess_run_check_def subprocess_run_def)
    next
      case False
      then show ?thesis
        using Pair
        by (cases r) (auto simp: succeeds_def subprocess_run_check_def subprocess_run_def)
    qed
  qed
qed

lemma fix_dependencies_pip_fail:
  assumes "cmds_succeed (sh ts) (map (pip_install_cmd ws) (glob_requirements w)) (files w)
             = None"
  shows "fst (fix_dependencies ts ws (n, w)) = False
       \<and> fst (snd (fix_dependencies ts ws (n, w))) = n"
  using pip_upgrade_all_fail [OF assms]
  by (auto simp: fix_dependencies_def split: prod.splits bool.splits)

lemma fix_dependencies_no_npm:
  assumes "cmds_succeed (sh ts) (map (pip_install_cmd ws) (glob_requirements w)) (files w)
             = Some fs1"
    and "\<not> exists_path (w\<lparr>files := fs1\<rparr>) ''package.json''"
  shows "fix_dependencies ts ws (n, w)
           = (True, n + 1,
              w\<lparr>files := fs1,
                calls := calls w @ map (pip_install_cmd ws) (glob_requirements w)\<rparr>)"
  using assms(2)
  by (simp add: fix_dependencies_def pip_upgrade_all_ok [OF assms(1)] exists_path_def)

lemma fix_dependencies_npm_ok:
  assumes "cmds_succeed (sh ts) (map (pip_install_cmd ws) (glob_requirements w)) (files w)
             = Some fs1"
    and "exists_path (w\<lparr>files := fs1\<rparr>) ''package.json''"
    and "cmds_succeed (sh ts) [[''npm'', ''update'']] fs1 = Some fs2"
  shows "fix_dependencies ts ws (n, w)
           = (True, n + 1,
              w\<lparr>files := fs2,
                calls := calls w @ map (pip_install_cmd ws) (glob_requirements w)
                         @ [[''npm'', ''update'']]\<rparr>)"
  using assms(2,3)
  by (auto simp: fix_dependencies_def pip_upgrade_all_ok [OF assms(1)] exists_path_def
      subprocess_run_check_def subprocess_run_def split: prod.splits proc.splits if_splits)

lemma fix_dependencies_npm_fail:
  assumes "cmds_succeed (sh ts) (map (pip_install_cmd ws) (glob_requirements w)) (files w)
             = Some fs1"
    and "exists_path (w\<lparr>files := fs1\<rparr>) ''package.json''"
    and "cmds_succeed (sh ts) [[''npm'', ''update'']] fs1 = None"
  shows "fix_dependencies ts ws (n, w)
           = (False, n,
              w\<lparr>files := snd (sh ts [''npm'', ''update''] fs1),
                calls := calls w @ map (pip_install_cmd ws) (glob_requirements w)
                         @ [[''npm'', ''update'']]\<rparr>)"
  using assms(2,3)
  by (auto simp: fix_dependencies_def pip_upgrade_all_ok [OF assms(1)] exists_path_def
      subprocess_run_check_def subprocess_run_def split: prod.splits proc.splits if_splits)








section \<open>Detectors whose tool fails\<close>

text \<open>
  C7 as stated fails: when the formatter has reported unformatted code and the import
  sorter then times out, the formatting detector returns the formatting issue it had
  already appended, not an empty list.
\<close>

theorem formatting_detector_keeps_partial_result:
  "raises (fst (sh isort_timeout_tools (isort_check ''.'') (files empty_world)))
   \<and> fst (detect_formatting_issues isort_timeout_tools ''.'' empty_world)
       = [formatting_issue ''.'']"
  by (simp add: detect_formatting_issues_def subprocess_run_def isort_timeout_tools_def
      isort_timeout_sh_def empty_world_def raises_def black_check_def isort_check_def)

lemma formatting_first_raises:
  "raises (fst (sh ts (black_check ws) (files w))) \<Longrightarrow>
   fst (detect_formatting_issues ts ws w) = []"
  by (auto simp: detect_formatting_issues_def subprocess_run_def raises_def
      split: prod.splits proc.splits)

lemma formatting_second_raises:
  "sh ts (black_check ws) (files w) = (Completed rc out err, fs1) \<Longrightarrow>
   raises (fst (sh ts (isort_check ws) fs1)) \<Longrightarrow>
   fst (detect_formatting_issues ts ws w) = (if rc \<noteq> 0 then [formatting_issue ws] else [])"
  by (auto simp: detect_formatting_issues_def subprocess_run_def raises_def
      split: prod.splits proc.splits)

lemma linting_raises:
  "raises (fst (sh ts (pylint_cmd ws w) (files w))) \<Longrightarrow>
   fst (detect_linting_issues ts ws w) = []"
  by (auto simp: detect_linting_issues_def subprocess_run_def raises_def
      split: prod.splits proc.splits)

lemma security_raises:
  "raises (fst (sh ts (bandit_cmd ws) (files w))) \<Longrightarrow>
   fst (detect_security_issues ts ws w) = []"
  by (auto simp: detect_security_issues_def subprocess_run_def raises_def
      split: prod.splits proc.splits)

lemma pip_round_raises:
  "raises (fst (sh ts pip_outdated (files w))) \<Longrightarrow>
   fst (pip_round ts ws req (issues, w)) = issues"
  by (auto simp: pip_round_def subprocess_run_def raises_def
      split: prod.splits proc.splits)

lemma pip_loop_raises:
  "\<forall>fs. raises (fst (sh ts pip_outdated fs)) \<Longrightarrow>
   fst (fold (pip_round ts ws) reqs (issues, w)) = issues"
proof (induction reqs arbitrary: w)
  case Nil
  then show ?case by simp
next
  case (Cons req reqs)
  have "fst (pip_round ts ws req (issues, w)) = issues"
    using Cons.prems by (intro pip_round_raises) simp
  then obtain w1 where "pip_round ts ws req (issues, w) = (issues, w1)"
    by (cases "pip_round ts ws req (issues, w)") simp
  then show ?case
    using Cons.IH [OF Cons.prems] by simp
qed

lemma dependency_no_manifest:
  "\<not> exists_path (snd (fold (pip_round ts ws) (glob_requirements w) ([], w))) ''package.json''
   \<Longrightarrow> fst (detect_dependency_issues ts ws w)
         = fst (fold (pip_round ts ws) (glob_requirements w) ([], w))"
  by (auto simp: detect_dependency_issues_def split: prod.splits)

lemma npm_raises:
  "raises (fst (sh ts npm_outdated
             (files (snd (fold (pip_round ts ws) (glob_requirements w) ([], w)))))) \<Longrightarrow>
   fst (detect_dependency_issues ts ws w)
     = fst (fold (pip_round ts ws) (glob_requirements w) ([], w))"
  by (auto simp: detect_dependency_issues_def subprocess_run_def raises_def
      split: prod.splits proc.splits)

lemma npm_completes:
  "exists_path (snd (fold (pip_round ts ws) (glob_requirements w) ([], w))) ''package.json''
   \<Longrightarrow> sh ts npm_outdated (files (snd (fold (pip_round ts ws) (glob_requirements w) ([], w))))
         = (Completed rc out err, fs')
   \<Longrightarrow> fst (detect_dependency_issues ts ws w)
         = fst (fold (pip_round ts ws) (glob_requirements w) ([], w))
           @ (if out \<noteq> [] \<and> out \<noteq> ''{}'' then [npm_issue] else [])"
  by (auto simp: detect_dependency_issues_def subprocess_run_def
      split: prod.splits proc.splits)

lemma npm_kept_when_pip_fails:
  assumes "\<forall>fs. raises (fst (sh ts pip_outdated fs))"
    and "exists_path (snd (fold (pip_round ts ws) (glob_requirements w) ([], w)))
           ''package.json''"
    and "sh ts npm_outdated (files (snd (fold (pip_round ts ws) (glob_requirements w) ([], w))))
           = (Completed rc out err, fs')"
    and "out \<noteq> []" and "out \<noteq> ''{}''"
  shows "fst (detect_dependency_issues ts ws w) = [npm_issue]"
  using npm_completes [OF assms(2,3)] pip_loop_raises [OF assms(1)] assms(4,5)
  by simp

lemma run_all_detectors_concat:
  "run_all_detectors ts ws w =
     (let f = detect_formatting_issues ts ws w;
          l = detect_linting_issues ts ws (snd f);
          s = detect_security_issues ts ws (snd l);
          d = detect_dependency_issues ts ws (snd s)
      in (fst f @ fst l @ fst s @ fst d, snd d))"
  by (simp add: run_all_detectors_def Let_def split: prod.splits)

text \<open>
  C7, amended. A detector never propagates the failure of a program it starts (a timeout,
  a missing program, any other exception): it returns the issues it had appended before
  the failing call. That is the empty list when the failing call is the detector's first
  or only one (the formatter, the linter, the security scanner); the formatting detector
  keeps the formatter's issue when the import sorter fails. In the dependency detector a
  failing \<^verbatim>\<open>pip list\<close> adds nothing for its requirements file, and when \<^verbatim>\<open>pip list\<close>
  always fails the requirements files give no issue at all; the result is what the
  requirements files gave followed by what \<^verbatim>\<open>package.json\<close> gives, which is nothing when
  it is absent or \<^verbatim>\<open>npm outdated\<close> fails and the npm issue when \<^verbatim>\<open>npm outdated\<close> lists
  a package, whether or not \<^verbatim>\<open>pip list\<close> failed. \<open>run_all_detectors\<close> is the
  concatenation of the four detectors' results, each run in the world the previous one
  left, so the issues of the other detectors are all in it.
\<close>

theorem detectors_degrade:
  "(raises (fst (sh ts (black_check ws) (files w))) \<longrightarrow>
      fst (detect_formatting_issues ts ws w) = [])
   \<and> (\<forall>rc out err fs1.
        sh ts (black_check ws) (files w) = (Completed rc out err, fs1)
        \<and> raises (fst (sh ts (isort_check ws) fs1)) \<longrightarrow>
        fst (detect_formatting_issues ts ws w)
          = (if rc \<noteq> 0 then [formatting_issue ws] else []))
   \<and> (raises (fst (sh ts (pylint_cmd ws w) (files w))) \<longrightarrow>
      fst (detect_linting_issues ts ws w) = [])
   \<and> (raises (fst (sh ts (bandit_cmd ws) (files w))) \<longrightarrow>
      fst (detect_security_issues ts ws w) = [])
   \<and> (raises (fst (sh ts pip_outdated (files w))) \<longrightarrow>
      fst (pip_round ts ws req (issues, w)) = issues)
   \<and> ((\<forall>fs. raises (fst (sh ts pip_outdated fs))) \<longrightarrow>
      fst (fold (pip_round ts ws) reqs (issues, w)) = issues)
   \<and> (\<not> exists_path (snd (fold (pip_round ts ws) (glob_requirements w) ([], w)))
           ''package.json'' \<longrightarrow>
      fst (detect_dependency_issues ts ws w)
        = fst (fold (pip_round ts ws) (glob_requirements w) ([], w)))
   \<and> (raises (fst (sh ts npm_outdated
                 (files (snd (fold (pip_round ts ws) (glob_requirements w) ([], w)))))) \<longrightarrow>
      fst (detect_dependency_issues ts ws w)
        = fst (fold (pip_round ts ws) (glob_requirements w) ([], w)))
   \<and> (\<forall>rc out err fs'.
        exists_path (snd (fold (pip_round ts ws) (glob_requirements w) ([], w)))
          ''package.json''
        \<and> sh ts npm_outdated
             (files (snd (fold (pip_round ts ws) (glob_requirements w) ([], w))))
           = (Completed rc out err, fs') \<longrightarrow>
        fst (detect_dependency_issues ts ws w)
          = fst (fold (pip_round ts ws) (glob_requirements w) ([], w))
            @ (if out \<noteq> [] \<and> out \<noteq> ''{}'' then [npm_issue] else []))
   \<and> (\<forall>rc out err fs'.
        (\<forall>fs. raises (fst (sh ts pip_outdated fs)))
        \<and> exists_path (snd (fold (pip_round ts ws) (glob_requirements w) ([], w)))
             ''package.json''
        \<and> sh ts npm_outdated
             (files (snd (fold (pip_round ts ws) (glob_requirements w) ([], w))))
           = (Completed rc out err, fs')
        \<and> out \<noteq> [] \<and> out \<noteq> ''{}'' \<longrightarrow>
        fst (detect_dependency_issues ts ws w) = [npm_issue])
   \<and> run_all_detectors ts ws w =
       (let f = detect_formatting_issues ts ws w;
            l = detect_linting_issues ts ws (snd f);
            s = detect_security_issues ts ws (snd l);
            d = detect_dependency_issues ts ws (snd s)
        in (fst f @ fst l @ fst s @ fst d, snd d))"
proof (intro conjI allI impI)
  fix rc out err fs1
  assume "sh ts (black_check ws) (files w) = (Completed rc out err, fs1)
          \<and> raises (fst (sh ts (isort_check ws) fs1))"
  then show "fst (detect_formatting_issues ts ws w)
               = (if rc \<noteq> 0 then [formatting_issue ws] else [])"
    using formatting_second_raises by blast
next
  assume "\<forall>fs. raises (fst (sh ts pip_outdated fs))"
  then show "fst (fold (pip_round ts ws) reqs (issues, w)) = issues"
    by (rule pip_loop_raises)
next
  fix rc out err fs'
  assume "exists_path (snd (fold (pip_round ts ws) (glob_requirements w) ([], w)))
            ''package.json''
          \<and> sh ts npm_outdated
               (files (snd (fold (pip_round ts ws) (glob_requirements w) ([], w))))
             = (Completed rc out err, fs')"
  then show "fst (detect_dependency_issues ts ws w)
          = fst (fold (pip_round ts ws) (glob_requirements w) ([], w))
            @ (if out \<noteq> [] \<and> out \<noteq> ''{}'' then [npm_issue] else [])"
    using npm_completes by blast
next
  fix rc out err fs'
  assume "(\<forall>fs. raises (fst (sh ts pip_outdated fs)))
        \<and> exists_path (snd (fold (pip_round ts ws) (glob_requirements w) ([], w)))
             ''package.json''
        \<and> sh ts npm_outdated
             (files (snd (fold (pip_round ts ws) (glob_requirements w) ([], w))))
           = (Completed rc out err, fs')
        \<and> out \<noteq> [] \<and> out \<noteq> ''{}''"
  then show "fst (detect_dependency_issues ts ws w) = [npm_issue]"
    using npm_kept_when_pip_fails by blast
next
  assume "\<not> exists_path (snd (fold (pip_round ts ws) (glob_requirements w) ([], w)))
              ''package.json''"
  then show "fst (detect_dependency_issues ts ws w)
        = fst (fold (pip_round ts ws) (glob_requirements w) ([], w))"
    by (rule dependency_no_manifest)
qed (simp_all only: formatting_first_raises linting_raises security_raises
      pip_round_raises npm_raises run_all_detectors_concat)

theorem detectors_degrade_witness:
  "raises (fst (sh pip_timeout_tools pip_outdated (files both_manifests_world)))
   \<and> glob_requirements both_manifests_world = [''requirements.txt'']
   \<and> fst (detect_dependency_issues pip_timeout_tools ''.'' both_manifests_world) = [npm_issue]
   \<and> sh isort_timeout_tools (black_check ''.'') (files empty_world) = (Completed 1 [] [], [])
   \<and> raises (fst (sh isort_timeout_tools (isort_check ''.'') []))
   \<and> fst (detect_formatting_issues isort_timeout_tools ''.'' empty_world)
       = [formatting_issue ''.'']
   \<and> raises (fst (sh timeout_tools (bandit_cmd ''.'') (files empty_world)))
   \<and> fst (detect_security_issues timeout_tools ''.'' empty_world) = []"
proof -
  let ?pip = "fold (pip_round pip_timeout_tools ''.'') (glob_requirements both_manifests_world)
                ([], both_manifests_world)"
  have g: "glob_requirements both_manifests_world = [''requirements.txt'']"
    by (simp add: glob_requirements_def entries_def both_manifests_world_def startswith_def
        endswith_def)
  have a: "\<forall>fs. raises (fst (sh pip_timeout_tools pip_outdated fs))"
    by (simp add: pip_timeout_tools_def pip_timeout_sh_def raises_def)
  have p: "?pip = ([], both_manifests_world\<lparr>calls := [pip_outdated]\<rparr>)"
    by (simp only: g)
       (simp add: pip_round_def subprocess_run_def pip_timeout_tools_def pip_timeout_sh_def
        both_manifests_world_def)
  have e: "exists_path (snd ?pip) ''package.json''"
    by (simp only: p) (simp add: exists_path_def node_at_def both_manifests_world_def)
  have n: "sh pip_timeout_tools npm_outdated (files (snd ?pip))
             = (Completed 1 (''{'' @ dq @ ''lodash'' @ dq @ '': {}}'') [],
                files both_manifests_world)"
    by (simp only: p)
       (simp add: pip_timeout_tools_def pip_timeout_sh_def npm_sh_def pip_outdated_def
        npm_outdated_def both_manifests_world_def)
  have o: "''{'' @ dq @ ''lodash'' @ dq @ '': {}}'' \<noteq> []"
    "''{'' @ dq @ ''lodash'' @ dq @ '': {}}'' \<noteq> ''{}''"
    by (simp_all add: dq_def)
  have b: "fst (detect_dependency_issues pip_timeout_tools ''.'' both_manifests_world)
             = [npm_issue]"
    using a e n o detectors_degrade [of pip_timeout_tools "''.''" both_manifests_world]
    by blast
  have c: "sh isort_timeout_tools (black_check ''.'') (files empty_world)
             = (Completed 1 [] [], [])"
    by (simp add: isort_timeout_tools_def isort_timeout_sh_def empty_world_def)
  have d: "raises (fst (sh isort_timeout_tools (isort_check ''.'') []))"
    by (simp add: isort_timeout_tools_def isort_timeout_sh_def raises_def black_check_def
        isort_check_def)
  have "fst (detect_formatting_issues isort_timeout_tools ''.'' empty_world)
       = (if (1::int) \<noteq> 0 then [formatting_issue ''.''] else [])"
    using c d detectors_degrade [of isort_timeout_tools "''.''" empty_world] by blast
  then have f: "fst (detect_formatting_issues isort_timeout_tools ''.'' empty_world)
       = [formatting_issue ''.'']"
    by simp
  have h: "raises (fst (sh timeout_tools (bandit_cmd ''.'') (files empty_world)))"
    by (simp add: timeout_tools_def timeout_sh_def raises_def)
  have i: "fst (detect_security_issues timeout_tools ''.'' empty_world) = []"
    using h detectors_degrade [of timeout_tools "''.''" empty_world] by blast
  have a0: "raises (fst (sh pip_timeout_tools pip_outdated (files both_manifests_world)))"
    using a by blast
  show ?thesis
    using a0 g b c d f h i by blast
qed


section \<open>A workspace with outdated npm packages only\<close>

text \<open>
  C8 as stated fails: detection gives the one npm issue, but \<open>fixed_count\<close> stays 0
  when \<^verbatim>\<open>npm update\<close> fails, and with a requirements file beside \<^verbatim>\<open>package.json\<close> the
  fix phase starts \<^verbatim>\<open>pip install\<close> first and, when that fails, never starts
  \<^verbatim>\<open>npm update\<close>.
\<close>

theorem npm_scenario_fix_can_fail:
  "fst (run_all_detectors npm_update_fails_tools ''.'' npm_world) = [npm_issue]
   \<and> run npm_update_fails_tools ''.'' (0, npm_world)
       = (True, 0,
          npm_world\<lparr>calls := [black_check ''.'', isort_check ''.'', bandit_cmd ''.'',
                               npm_outdated, [''npm'', ''update'']]\<rparr>)
   \<and> fst (run_all_detectors pip_install_fails_tools ''.'' both_manifests_world) = [npm_issue]
   \<and> run pip_install_fails_tools ''.'' (0, both_manifests_world)
       = (True, 0,
          both_manifests_world\<lparr>calls := [black_check ''.'', isort_check ''.'', bandit_cmd ''.'',
                                          pip_outdated, npm_outdated,
                                          pip_install_cmd ''.'' ''requirements.txt'']\<rparr>)"
  by (simp add: run_def apply_fixes_def fix_dependencies_def fix_formatting_def
      run_all_detectors_def detect_formatting_issues_def detect_linting_issues_def
      detect_security_issues_def detect_dependency_issues_def pip_round_def
      subprocess_run_check_def subprocess_run_def
      npm_update_fails_tools_def npm_update_fails_sh_def pip_install_fails_tools_def
      pip_install_fails_sh_def npm_sh_def npm_world_def both_manifests_world_def
      rglob_py_def glob_requirements_def exists_path_def node_at_def entries_def
      endswith_def startswith_def black_check_def isort_check_def bandit_cmd_def
      npm_outdated_def pip_outdated_def pip_install_cmd_def joinpath_def dq_def
      npm_issue_def Issue_init_def)

lemma pip_upgrade_all_calls:
  "\<exists>k. calls (snd (pip_upgrade_all ts ws reqs w))
          = calls w @ take k (map (pip_install_cmd ws) reqs)"
proof (induction reqs arbitrary: w)
  case Nil
  then show ?case by simp
next
  case (Cons req reqs)
  obtain r w1 where p: "subprocess_run_check (sh ts) (pip_install_cmd ws req) w = (r, w1)"
    by (cases "subprocess_run_check (sh ts) (pip_install_cmd ws req) w")
  then have c1: "calls w1 = calls w @ [pip_install_cmd ws req]"
    by (auto simp: subprocess_run_check_def subprocess_run_def
        split: prod.splits proc.splits if_splits)
  show ?case
  proof (cases r)
    case (Completed rc out err)
    obtain k where
      "calls (snd (pip_upgrade_all ts ws reqs w1))
         = calls w1 @ take k (map (pip_install_cmd ws) reqs)"
      using Cons.IH by blast
    then have "calls (snd (pip_upgrade_all ts ws (req # reqs) w))
         = calls w @ take (Suc k) (map (pip_install_cmd ws) (req # reqs))"
      using p Completed by (simp add: c1)
    then show ?thesis by blast
  next
    case FileNotFoundError
    then have "calls (snd (pip_upgrade_all ts ws (req # reqs) w))
         = calls w @ take (Suc 0) (map (pip_install_cmd ws) (req # reqs))"
      using p c1 by simp
    then show ?thesis by blast
  next
    case (Raised e)
    then have "calls (snd (pip_upgrade_all ts ws (req # reqs) w))
         = calls w @ take (Suc 0) (map (pip_install_cmd ws) (req # reqs))"
      using p c1 by simp
    then show ?thesis by blast
  qed
qed

lemma fix_dependencies_pip_fail_calls:
  assumes "cmds_succeed (sh ts) (map (pip_install_cmd ws) (glob_requirements w)) (files w)
             = None"
  shows "\<exists>k. calls (snd (snd (fix_dependencies ts ws (n, w))))
              = calls w @ take k (map (pip_install_cmd ws) (glob_requirements w))"
  using pip_upgrade_all_fail [OF assms] pip_upgrade_all_calls [of ts ws "glob_requirements w" w]
  by (auto simp: fix_dependencies_def split: prod.splits bool.splits)

lemma apply_fixes_npm_issue:
  "apply_fixes ts ws [npm_issue] st = snd (fix_dependencies ts ws st)"
  by (simp add: apply_fixes_def npm_issue_def Issue_init_def)


text \<open>
  C8, amended. Take a workspace in which the formatting, linting and security detectors
  find nothing, the requirements files (if any) show nothing outdated, \<^verbatim>\<open>package.json\<close>
  exists and \<^verbatim>\<open>npm outdated\<close> prints a listing other than \<^verbatim>\<open>{}\<close>. Detection returns
  exactly one issue, of type \<^verbatim>\<open>npm-dependencies\<close> and fixable. The fix phase on that
  report is one application of the dependency fixer: it starts \<^verbatim>\<open>pip install\<close> for each
  requirements file and then, if they all complete with return code 0 and
  \<^verbatim>\<open>package.json\<close> still exists, \<^verbatim>\<open>npm update\<close> once. \<open>fixed_count\<close> goes from 0 to 1
  when every command started completes with return code 0, and stays 0 otherwise; \<open>run\<close>
  returns \<open>True\<close> with that counter.
\<close>

theorem npm_only_scenario:
  assumes "detect_formatting_issues ts ws w = ([], w1)"
    and "detect_linting_issues ts ws w1 = ([], w2)"
    and "detect_security_issues ts ws w2 = ([], w3)"
    and "fold (pip_round ts ws) (glob_requirements w3) ([], w3) = ([], w3')"
    and "exists_path w3' ''package.json''"
    and "sh ts npm_outdated (files w3') = (Completed rc out err, fs4)"
    and "out \<noteq> []" and "out \<noteq> ''{}''"
    and "w4 = w3'\<lparr>files := fs4, calls := calls w3' @ [npm_outdated]\<rparr>"
    and "pips = map (pip_install_cmd ws) (glob_requirements w4)"
  shows "run_all_detectors ts ws w = ([npm_issue], w4)
       \<and> issue_type npm_issue = ''npm-dependencies'' \<and> fixable npm_issue
       \<and> apply_fixes ts ws [npm_issue] (0, w4) = snd (fix_dependencies ts ws (0, w4))
       \<and> run ts ws (0, w) = (True, apply_fixes ts ws [npm_issue] (0, w4))
       \<and> (cmds_succeed (sh ts) pips (files w4) = None \<longrightarrow>
            fst (apply_fixes ts ws [npm_issue] (0, w4)) = 0
            \<and> (\<exists>k. calls (snd (apply_fixes ts ws [npm_issue] (0, w4)))
                      = calls w4 @ take k pips))
       \<and> (\<forall>fs5. cmds_succeed (sh ts) pips (files w4) = Some fs5 \<longrightarrow>
            (\<not> exists_path (w4\<lparr>files := fs5\<rparr>) ''package.json'' \<longrightarrow>
               apply_fixes ts ws [npm_issue] (0, w4)
                 = (1, w4\<lparr>files := fs5, calls := calls w4 @ pips\<rparr>))
            \<and> (exists_path (w4\<lparr>files := fs5\<rparr>) ''package.json'' \<longrightarrow>
               (\<forall>fs6. cmds_succeed (sh ts) [[''npm'', ''update'']] fs5 = Some fs6 \<longrightarrow>
                  apply_fixes ts ws [npm_issue] (0, w4)
                    = (1, w4\<lparr>files := fs6,
                             calls := calls w4 @ pips @ [[''npm'', ''update'']]\<rparr>))
               \<and> (cmds_succeed (sh ts) [[''npm'', ''update'']] fs5 = None \<longrightarrow>
                  apply_fixes ts ws [npm_issue] (0, w4)
                    = (0, w4\<lparr>files := snd (sh ts [''npm'', ''update''] fs5),
                             calls := calls w4 @ pips @ [[''npm'', ''update'']]\<rparr>))))"
proof -
  have d: "detect_dependency_issues ts ws w3 = ([npm_issue], w4)"
    using assms(4-9) by (simp add: detect_dependency_issues_def subprocess_run_def)
  have r: "run_all_detectors ts ws w = ([npm_issue], w4)"
    using assms(1-3) d by (simp add: run_all_detectors_def)
  have t: "issue_type npm_issue = ''npm-dependencies''" "fixable npm_issue"
    by (simp_all add: npm_issue_def Issue_init_def)
  have a: "apply_fixes ts ws [npm_issue] (0, w4) = snd (fix_dependencies ts ws (0, w4))"
    by (rule apply_fixes_npm_issue)
  have u: "run ts ws (0, w) = (True, apply_fixes ts ws [npm_issue] (0, w4))"
    by (simp add: run_def r)
  have f1: "fst (apply_fixes ts ws [npm_issue] (0, w4)) = 0
            \<and> (\<exists>k. calls (snd (apply_fixes ts ws [npm_issue] (0, w4)))
                      = calls w4 @ take k pips)"
    if "cmds_succeed (sh ts) pips (files w4) = None"
    using that fix_dependencies_pip_fail [of ts ws w4 0]
      fix_dependencies_pip_fail_calls [of ts ws w4 0]
    unfolding a assms(10) by simp
  have f2: "apply_fixes ts ws [npm_issue] (0, w4)
              = (1, w4\<lparr>files := fs5, calls := calls w4 @ pips\<rparr>)"
    if "cmds_succeed (sh ts) pips (files w4) = Some fs5"
      and "\<not> exists_path (w4\<lparr>files := fs5\<rparr>) ''package.json''" for fs5
    using fix_dependencies_no_npm [of ts ws w4 fs5 0] that
    unfolding a assms(10) by simp
  have f3: "apply_fixes ts ws [npm_issue] (0, w4)
              = (1, w4\<lparr>files := fs6, calls := calls w4 @ pips @ [[''npm'', ''update'']]\<rparr>)"
    if "cmds_succeed (sh ts) pips (files w4) = Some fs5"
      and "exists_path (w4\<lparr>files := fs5\<rparr>) ''package.json''"
      and "cmds_succeed (sh ts) [[''npm'', ''update'']] fs5 = Some fs6" for fs5 fs6
    using fix_dependencies_npm_ok [of ts ws w4 fs5 fs6 0] that
    unfolding a assms(10) by simp
  have f4: "apply_fixes ts ws [npm_issue] (0, w4)
              = (0, w4\<lparr>files := snd (sh ts [''npm'', ''update''] fs5),
                       calls := calls w4 @ pips @ [[''npm'', ''update'']]\<rparr>)"
    if "cmds_succeed (sh ts) pips (files w4) = Some fs5"
      and "exists_path (w4\<lparr>files := fs5\<rparr>) ''package.json''"
      and "cmds_succeed (sh ts) [[''npm'', ''update'']] fs5 = None" for fs5
    using fix_dependencies_npm_fail [of ts ws w4 fs5 0] that
    unfolding a assms(10) by simp
  show ?thesis
    using r t a u f1 f2 f3 f4 by blast
qed


theorem npm_only_scenario_witness:
  "exists_path both_manifests_world ''package.json''
   \<and> glob_requirements both_manifests_world = [''requirements.txt'']
   \<and> fst (run_all_detectors npm_tools ''.'' both_manifests_world) = [npm_issue]
   \<and> cmds_succeed (sh npm_tools)
         [pip_install_cmd ''.'' ''requirements.txt'', [''npm'', ''update'']]
         (files both_manifests_world)
       = Some (files both_manifests_world)
   \<and> run npm_tools ''.'' (0, both_manifests_world)
       = (True, 1,
          both_manifests_world\<lparr>calls := [black_check ''.'', isort_check ''.'', bandit_cmd ''.'',
                                          pip_outdated, npm_outdated,
                                          pip_install_cmd ''.'' ''requirements.txt'',
                                          [''npm'', ''update'']]\<rparr>)"
proof -
  let ?b = both_manifests_world
  let ?fs = "files both_manifests_world"
  let ?w1 = "?b\<lparr>calls := [black_check ''.'', isort_check ''.'']\<rparr>"
  let ?w3 = "?b\<lparr>calls := [black_check ''.'', isort_check ''.'', bandit_cmd ''.'']\<rparr>"
  let ?w3' = "?b\<lparr>calls := [black_check ''.'', isort_check ''.'', bandit_cmd ''.'',
                              pip_outdated]\<rparr>"
  let ?w4 = "?b\<lparr>calls := [black_check ''.'', isort_check ''.'', bandit_cmd ''.'',
                             pip_outdated, npm_outdated]\<rparr>"
  let ?out = "''{'' @ dq @ ''lodash'' @ dq @ '': {}}''"
  let ?pips = "[pip_install_cmd ''.'' ''requirements.txt'']"
  have cb: "calls ?b = []"
    by (simp add: both_manifests_world_def)
  have g: "glob_requirements ?b = [''requirements.txt'']"
    "glob_requirements ?w3 = [''requirements.txt'']"
    "glob_requirements ?w4 = [''requirements.txt'']"
    by (simp_all add: glob_requirements_def entries_def both_manifests_world_def
        startswith_def endswith_def)
  have x: "exists_path ?b ''package.json''" "exists_path ?w3' ''package.json''"
    "exists_path (?w4\<lparr>files := ?fs\<rparr>) ''package.json''"
    by (simp_all add: exists_path_def node_at_def both_manifests_world_def)
  have h1: "detect_formatting_issues npm_tools ''.'' ?b = ([], ?w1)"
    by (simp add: detect_formatting_issues_def subprocess_run_def npm_tools_def npm_sh_def
        black_check_def isort_check_def npm_outdated_def cb)
  have h2: "detect_linting_issues npm_tools ''.'' ?w1 = ([], ?w1)"
    by (simp add: detect_linting_issues_def rglob_py_def entries_def endswith_def
        both_manifests_world_def)
  have h3: "detect_security_issues npm_tools ''.'' ?w1 = ([], ?w3)"
    by (simp add: detect_security_issues_def subprocess_run_def npm_tools_def npm_sh_def
        bandit_cmd_def npm_outdated_def)
  have h4: "fold (pip_round npm_tools ''.'') (glob_requirements ?w3) ([], ?w3) = ([], ?w3')"
    by (simp only: g)
       (simp add: pip_round_def subprocess_run_def npm_tools_def npm_sh_def pip_outdated_def
        npm_outdated_def)
  have h6: "sh npm_tools npm_outdated (files ?w3') = (Completed 1 ?out [], ?fs)"
    by (simp add: npm_tools_def npm_sh_def)
  have h7: "?out \<noteq> []" "?out \<noteq> ''{}''"
    by (simp_all add: dq_def)
  have h8: "?w4 = ?w3'\<lparr>files := ?fs, calls := calls ?w3' @ [npm_outdated]\<rparr>"
    by simp
  have h9: "?pips = map (pip_install_cmd ''.'') (glob_requirements ?w4)"
    by (simp only: g) simp
  note t = npm_only_scenario [OF h1 h2 h3 h4 x(2) h6 h7 h8 h9]
  have a: "fst (run_all_detectors npm_tools ''.'' ?b) = [npm_issue]"
    using t by simp
  have c1: "cmds_succeed (sh npm_tools) ?pips (files ?w4) = Some ?fs"
    by (simp add: npm_tools_def npm_sh_def pip_install_cmd_def npm_outdated_def)
  have c2: "cmds_succeed (sh npm_tools) [[''npm'', ''update'']] ?fs = Some ?fs"
    by (simp add: npm_tools_def npm_sh_def npm_outdated_def)
  have "apply_fixes npm_tools ''.'' [npm_issue] (0, ?w4)
          = (1, ?w4\<lparr>files := ?fs, calls := calls ?w4 @ ?pips @ [[''npm'', ''update'']]\<rparr>)"
    using t c1 c2 x(3) by blast
  then have b: "run npm_tools ''.'' (0, ?b)
       = (True, 1,
          ?b\<lparr>calls := [black_check ''.'', isort_check ''.'', bandit_cmd ''.'',
                         pip_outdated, npm_outdated,
                         pip_install_cmd ''.'' ''requirements.txt'',
                         [''npm'', ''update'']]\<rparr>)"
    using t by (simp add: cb)
  have c: "cmds_succeed (sh npm_tools)
         [pip_install_cmd ''.'' ''requirements.txt'', [''npm'', ''update'']] ?fs = Some ?fs"
    by (simp add: npm_tools_def npm_sh_def pip_install_cmd_def npm_outdated_def)
  show ?thesis
    using x(1) g(1) a b c by blast
qed

end
